theory Spec2Isabelle
  imports Main "HOL-Library.Word"
begin

unbundle bit_operations_syntax

section \<open>Data model\<close>

text \<open>
  The cipher core of the repository (namespace \<open>AES::Implementation::Portable\<close> and the
  mode layer built on it).  Machine integers are words: \<open>uint8_t\<close> is \<open>8 word\<close>,
  \<open>uint32_t\<close> is \<open>32 word\<close>.  \<open>Portable::Block_t\<close> is
  \<open>std::array<uint32_t, 4>\<close>, modelled as a 4-tuple of 32-bit words.  A
  \<open>std::bit_cast\<close> between a block (or a word) and its bytes is little-endian, as on
  the x86 targets the hardware path is written for.  Byte buffers are lists of bytes.
\<close>

type_synonym u8 = "8 word"
type_synonym u32 = "32 word"
type_synonym Block_t = "u32 \<times> u32 \<times> u32 \<times> u32"

datatype error = OutOfBounds | LengthError | AssertFailed

text \<open>\<open>std::bit_cast<std::array<uint8_t, 4>>(Word)\<close> and back.\<close>

definition word_bytes :: "u32 \<Rightarrow> u8 list" where
  "word_bytes w = [ucast w, ucast (drop_bit 8 w), ucast (drop_bit 16 w), ucast (drop_bit 24 w)]"

definition bytes_word :: "u8 \<Rightarrow> u8 \<Rightarrow> u8 \<Rightarrow> u8 \<Rightarrow> u32" where
  "bytes_word b0 b1 b2 b3 =
     ucast b0 OR push_bit 8 (ucast b1) OR push_bit 16 (ucast b2) OR push_bit 24 (ucast b3)"

text \<open>\<open>std::bit_cast<std::array<uint8_t, 16>>(Block)\<close> and back (16 bytes expected).\<close>

fun block_bytes :: "Block_t \<Rightarrow> u8 list" where
  "block_bytes (w0, w1, w2, w3) = word_bytes w0 @ word_bytes w1 @ word_bytes w2 @ word_bytes w3"

definition bytes_block :: "u8 list \<Rightarrow> Block_t" where
  "bytes_block bs =
     (bytes_word (bs ! 0) (bs ! 1) (bs ! 2) (bs ! 3),
      bytes_word (bs ! 4) (bs ! 5) (bs ! 6) (bs ! 7),
      bytes_word (bs ! 8) (bs ! 9) (bs ! 10) (bs ! 11),
      bytes_word (bs ! 12) (bs ! 13) (bs ! 14) (bs ! 15))"

section \<open>Galois-field primitives\<close>

text \<open>
  \<open>Mul2\<close>, \<open>Mul3\<close>, \<open>Div3\<close> on \<open>uint8_t\<close>; the result of the \<open>int\<close> expression is
  truncated to eight bits by the return type.  The \<open>uint32_t\<close> overloads of \<open>Mul2\<close>
  and \<open>Mul3\<close> act on four packed bytes and are named \<open>Mul2_32\<close> and \<open>Mul3_32\<close> here.
\<close>

definition Mul2 :: "u8 \<Rightarrow> u8" where
  "Mul2 Input = push_bit 1 Input XOR (drop_bit 7 Input * 0x1B)"

definition Mul3 :: "u8 \<Rightarrow> u8" where
  "Mul3 Input = Mul2 Input XOR Input"

definition Div3 :: "u8 \<Rightarrow> u8" where
  "Div3 Input =
     (let I1 = Input XOR push_bit 1 Input;
          I2 = I1 XOR push_bit 2 I1;
          I3 = I2 XOR push_bit 4 I2
      in I3 XOR (drop_bit 7 I3 * 0x09))"

definition Mul2_32 :: "u32 \<Rightarrow> u32" where
  "Mul2_32 Input =
     push_bit 1 (Input AND 0x7F7F7F7F) XOR (drop_bit 7 (Input AND 0x80808080) * 0x1B)"

definition Mul3_32 :: "u32 \<Rightarrow> u32" where
  "Mul3_32 Input =
     push_bit 2 (Input AND 0x3F3F3F3F) XOR (drop_bit 7 (Input AND 0x80808080) * 0x36)
       XOR (drop_bit 6 (Input AND 0x40404040) * 0x1B)"

section \<open>Plumbing for 128-bit blocks\<close>

fun XOR_block :: "Block_t \<Rightarrow> Block_t \<Rightarrow> Block_t" where
  "XOR_block (a0, a1, a2, a3) (b0, b1, b2, b3) = (a0 XOR b0, a1 XOR b1, a2 XOR b2, a3 XOR b3)"

fun Shift4 :: "Block_t \<Rightarrow> Block_t" where
  "Shift4 (i0, i1, i2, i3) = (0, i0, i1, i2)"

text \<open>\<open>Input[k]\<close> for an index computed at run time; the index is at most 3 at every call.\<close>

fun Block_at :: "Block_t \<Rightarrow> nat \<Rightarrow> u32" where
  "Block_at (i0, i1, i2, i3) k = (if k = 0 then i0 else if k = 1 then i1 else if k = 2 then i2 else i3)"

definition Shuffle4 :: "Block_t \<Rightarrow> u8 \<Rightarrow> Block_t" where
  "Shuffle4 Input Control =
     (Block_at Input (unat (drop_bit 0 (Control AND 0x03))),
      Block_at Input (unat (drop_bit 2 (Control AND 0x0C))),
      Block_at Input (unat (drop_bit 4 (Control AND 0x30))),
      Block_at Input (unat (drop_bit 6 (Control AND 0xC0))))"

section \<open>Substitution boxes\<close>

text \<open>
  \<open>std::rotl\<close> on \<open>uint8_t\<close> and \<open>std::rotr\<close> on \<open>uint32_t\<close>, as the C++ standard
  defines them: with \<open>r = s mod N\<close>, the value itself if \<open>r = 0\<close>, and otherwise
  \<open>(x << r) | (x >> (N - r))\<close> for \<open>rotl\<close>, \<open>(x >> r) | (x << (N - r))\<close> for \<open>rotr\<close>.
\<close>

definition rotl8 :: "u8 \<Rightarrow> nat \<Rightarrow> u8" where
  "rotl8 x s = (if s mod 8 = 0 then x else push_bit (s mod 8) x OR drop_bit (8 - s mod 8) x)"

definition rotr32 :: "u32 \<Rightarrow> nat \<Rightarrow> u32" where
  "rotr32 x s = (if s mod 32 = 0 then x else drop_bit (s mod 32) x OR push_bit (32 - s mod 32) x)"

text \<open>The affine transform applied to \<open>Q\<close> in the generator.\<close>

definition Affine :: "u8 \<Rightarrow> u8" where
  "Affine Q = 0x63 XOR (Q XOR rotl8 Q 1 XOR rotl8 Q 2 XOR rotl8 Q 3 XOR rotl8 Q 4)"

text \<open>
  The \<open>do { ... } while (P != 1)\<close> loop of the generator.  The loop has no bound in the
  source, so it is a partial function: not returning is \<open>None\<close>.  \<open>Written\<close> is a ghost
  list recording, in order, the indices the loop assigns (one per iteration); it does
  not influence \<open>P\<close>, \<open>Q\<close> or \<open>Buffer\<close>.
\<close>

partial_function (option) SBox_loop ::
  "u8 \<Rightarrow> u8 \<Rightarrow> u8 list \<Rightarrow> nat list \<Rightarrow> (u8 list \<times> nat list) option" where
  "SBox_loop P Q Buffer Written =
     (if Mul3 P \<noteq> 1
      then SBox_loop (Mul3 P) (Div3 Q) (Buffer[unat (Mul3 P) := Affine (Div3 Q)])
             (Written @ [unat (Mul3 P)])
      else Some (Buffer[unat (Mul3 P) := Affine (Div3 Q)], Written @ [unat (Mul3 P)]))"

definition SBox_gen :: "u8 list option" where
  "SBox_gen =
     (case SBox_loop 1 1 (replicate 256 0) [] of
        None \<Rightarrow> None
      | Some (Buffer, Written) \<Rightarrow> Some (Buffer[0 := 0x63]))"

definition SBox :: "u8 list" where
  "SBox = (case SBox_gen of Some Buffer \<Rightarrow> Buffer | None \<Rightarrow> [])"

text \<open>\<open>for (i = 0; i < 256; ++i) Buffer[SBox[i]] = uint8_t(i)\<close>.\<close>

definition INVSBox :: "u8 list" where
  "INVSBox = fold (\<lambda>i Buffer. Buffer[unat (SBox ! i) := of_nat i]) [0..<256] (replicate 256 0)"

definition Substitute :: "u32 \<Rightarrow> u32" where
  "Substitute Word =
     (let Temp = word_bytes Word
      in bytes_word (SBox ! unat (Temp ! 0)) (SBox ! unat (Temp ! 1))
                    (SBox ! unat (Temp ! 2)) (SBox ! unat (Temp ! 3)))"

definition INVSubstitute :: "u32 \<Rightarrow> u32" where
  "INVSubstitute Word =
     (let Temp = word_bytes Word
      in bytes_word (INVSBox ! unat (Temp ! 0)) (INVSBox ! unat (Temp ! 1))
                    (INVSBox ! unat (Temp ! 2)) (INVSBox ! unat (Temp ! 3)))"

fun Substitute_block :: "Block_t \<Rightarrow> Block_t" where
  "Substitute_block (i0, i1, i2, i3) = (Substitute i0, Substitute i1, Substitute i2, Substitute i3)"

fun INVSubstitute_block :: "Block_t \<Rightarrow> Block_t" where
  "INVSubstitute_block (i0, i1, i2, i3) =
     (INVSubstitute i0, INVSubstitute i1, INVSubstitute i2, INVSubstitute i3)"

section \<open>Row shift and column mix\<close>

text \<open>\<open>asBytes[w][b]\<close> is byte \<open>b\<close> of word \<open>w\<close>.\<close>

fun Shiftrow :: "Block_t \<Rightarrow> Block_t" where
  "Shiftrow (i0, i1, i2, i3) =
     (let a0 = word_bytes i0; a1 = word_bytes i1; a2 = word_bytes i2; a3 = word_bytes i3
      in (bytes_word (a0 ! 0) (a1 ! 1) (a2 ! 2) (a3 ! 3),
          bytes_word (a1 ! 0) (a2 ! 1) (a3 ! 2) (a0 ! 3),
          bytes_word (a2 ! 0) (a3 ! 1) (a0 ! 2) (a1 ! 3),
          bytes_word (a3 ! 0) (a0 ! 1) (a1 ! 2) (a2 ! 3)))"

fun INVShiftrow :: "Block_t \<Rightarrow> Block_t" where
  "INVShiftrow (i0, i1, i2, i3) =
     (let a0 = word_bytes i0; a1 = word_bytes i1; a2 = word_bytes i2; a3 = word_bytes i3
      in (bytes_word (a0 ! 0) (a3 ! 1) (a2 ! 2) (a1 ! 3),
          bytes_word (a1 ! 0) (a0 ! 1) (a3 ! 2) (a2 ! 3),
          bytes_word (a2 ! 0) (a1 ! 1) (a0 ! 2) (a3 ! 3),
          bytes_word (a3 ! 0) (a2 ! 1) (a1 ! 2) (a0 ! 3)))"

definition Mix :: "u32 \<Rightarrow> u32" where
  "Mix Word =
     (let Temp = Mul2_32 Word XOR rotr32 Word 16
      in Temp XOR rotr32 (Word XOR Temp) 8)"

definition INVMix :: "u32 \<Rightarrow> u32" where
  "INVMix Word =
     (let Temp = Mul3_32 Word
      in Mix (Word XOR Temp XOR rotr32 Temp 16))"

fun Mix_block :: "Block_t \<Rightarrow> Block_t" where
  "Mix_block (i0, i1, i2, i3) = (Mix i0, Mix i1, Mix i2, Mix i3)"

fun INVMix_block :: "Block_t \<Rightarrow> Block_t" where
  "INVMix_block (i0, i1, i2, i3) = (INVMix i0, INVMix i1, INVMix i2, INVMix i3)"

section \<open>Key schedule\<close>

definition Roundconstants :: "u8 list" where
  "Roundconstants = [0x01, 0x02, 0x04, 0x08, 0x10, 0x20, 0x40, 0x80, 0x1b, 0x36]"

fun Keygenassist :: "Block_t \<Rightarrow> nat \<Rightarrow> Block_t" where
  "Keygenassist (i0, i1, i2, i3) i =
     (let RCON = (ucast (Roundconstants ! i) :: u32)
      in (Substitute i1,
          rotr32 (Substitute i1) 8 XOR RCON,
          Substitute i3,
          rotr32 (Substitute i3) 8 XOR RCON))"

text \<open>
  \<open>cmp::memcpy(Schedule.data(), Key.data(), Keysize * 4)\<close> into the zero-initialised
  schedule: the key bytes fill the first blocks, the rest stays zero.
\<close>

definition Schedule_init :: "nat \<Rightarrow> nat \<Rightarrow> u8 list \<Rightarrow> Block_t list" where
  "Schedule_init Keysize Rounds Key =
     (let Bytes = take (Keysize * 4) Key @ replicate (16 * (Rounds + 1) - Keysize * 4) 0
      in map (\<lambda>k. bytes_block (take 16 (drop (16 * k) Bytes))) [0..<Rounds + 1])"

definition Expand_T :: "Block_t \<Rightarrow> Block_t \<Rightarrow> Block_t" where
  "Expand_T A T0 =
     (let T1 = XOR_block T0 (Shift4 T0);
          T2 = XOR_block T1 (Shift4 T1);
          T3 = XOR_block T2 (Shift4 T2)
      in XOR_block A T3)"

definition Keyexpansion_128_step :: "nat \<Rightarrow> Block_t list \<Rightarrow> Block_t list" where
  "Keyexpansion_128_step i Schedule =
     (let A = Shuffle4 (Keygenassist (Schedule ! i) i) 0xFF;
          T = Expand_T A (Schedule ! i)
      in Schedule[i + 1 := T])"

definition Keyexpansion_192_step :: "nat \<Rightarrow> Block_t list \<Rightarrow> Block_t list" where
  "Keyexpansion_192_step i Schedule =
     (let A = Shuffle4 (Keygenassist (Schedule ! i) (i div 2)) 0x55;
          T = Expand_T A (Schedule ! (i - 1));
          B = Shuffle4 T 0xFF;
          U1 = XOR_block (Schedule ! i) (Shift4 (Schedule ! i));
          U = XOR_block B U1
      in if i = 12 then Schedule[i := T]
         else (Schedule[i := (Block_at (Schedule ! i) 0, Block_at (Schedule ! i) 1,
                              Block_at T 0, Block_at T 1)])
                [i + 1 := (Block_at T 2, Block_at T 3, Block_at U 0, Block_at U 1)])"

definition Keyexpansion_256_step :: "nat \<Rightarrow> Block_t list \<Rightarrow> Block_t list" where
  "Keyexpansion_256_step i Schedule =
     (let A = (if odd i then Shuffle4 (Keygenassist (Schedule ! i) (i div 2)) 0xFF
               else Shuffle4 (Keygenassist (Schedule ! i) 0) 0xAA);
          T = Expand_T A (Schedule ! (i - 1))
      in Schedule[i + 1 := T])"

definition Keyexpansion :: "nat \<Rightarrow> nat \<Rightarrow> u8 list \<Rightarrow> Block_t list" where
  "Keyexpansion Keysize Rounds Key =
     (let S0 = Schedule_init Keysize Rounds Key;
          S1 = (if Keysize = 4 \<and> Rounds = 10 then fold Keyexpansion_128_step [0..<Rounds] S0 else S0);
          S2 = (if Keysize = 6 \<and> Rounds = 12 then fold Keyexpansion_192_step [1..<Rounds] S1 else S1);
          S3 = (if Keysize = 8 \<and> Rounds = 14 then fold Keyexpansion_256_step [1..<Rounds] S2 else S2)
      in S3)"

definition INVKeyexpansion :: "nat \<Rightarrow> nat \<Rightarrow> u8 list \<Rightarrow> Block_t list" where
  "INVKeyexpansion Keysize Rounds Key =
     (let Keys = Keyexpansion Keysize Rounds Key;
          R0 = replicate (Rounds + 1) (0, 0, 0, 0);
          R1 = fold (\<lambda>i Result. Result[i := INVMix_block (Keys ! (Rounds - i))]) [1..<Rounds + 1] R0;
          R2 = R1[0 := Keys ! Rounds]
      in R2[Rounds := Keys ! 0])"

section \<open>Block transform\<close>

definition Encryptblock :: "nat \<Rightarrow> Block_t \<Rightarrow> Block_t list \<Rightarrow> Block_t" where
  "Encryptblock Rounds Input Keys =
     (let B0 = XOR_block Input (Keys ! 0);
          B1 = fold (\<lambda>i Block. XOR_block (Mix_block (Substitute_block (Shiftrow Block))) (Keys ! i))
                    [1..<Rounds] B0;
          B2 = Substitute_block (Shiftrow B1)
      in XOR_block B2 (Keys ! Rounds))"

definition Decryptblock :: "nat \<Rightarrow> Block_t \<Rightarrow> Block_t list \<Rightarrow> Block_t" where
  "Decryptblock Rounds Input Keys =
     (let B0 = XOR_block Input (Keys ! 0);
          B1 = fold (\<lambda>i Block. XOR_block (INVMix_block (INVSubstitute_block (INVShiftrow Block))) (Keys ! i))
                    [1..<Rounds] B0;
          B2 = INVSubstitute_block (INVShiftrow B1)
      in XOR_block B2 (Keys ! Rounds))"

section \<open>Per-block mode primitives\<close>

text \<open>
  The per-block drivers mutate \<open>State\<close> in place; the model returns the new state
  together with the output block.
\<close>

definition Encryptblock_CBC :: "nat \<Rightarrow> Block_t \<Rightarrow> Block_t \<Rightarrow> Block_t list \<Rightarrow> Block_t \<times> Block_t" where
  "Encryptblock_CBC Rounds State Input Keys =
     (let Temp = Encryptblock Rounds (XOR_block State Input) Keys in (Temp, Temp))"

definition Decryptblock_CBC :: "nat \<Rightarrow> Block_t \<Rightarrow> Block_t \<Rightarrow> Block_t list \<Rightarrow> Block_t \<times> Block_t" where
  "Decryptblock_CBC Rounds State Input Keys =
     (let Temp = XOR_block State (Decryptblock Rounds Input Keys) in (Input, Temp))"

definition Encryptblock_CFB :: "nat \<Rightarrow> Block_t \<Rightarrow> Block_t \<Rightarrow> Block_t list \<Rightarrow> Block_t \<times> Block_t" where
  "Encryptblock_CFB Rounds State Input Keys =
     (let Temp = XOR_block Input (Encryptblock Rounds State Keys) in (Temp, Temp))"

definition Decryptblock_CFB :: "nat \<Rightarrow> Block_t \<Rightarrow> Block_t \<Rightarrow> Block_t list \<Rightarrow> Block_t \<times> Block_t" where
  "Decryptblock_CFB Rounds State Input Keys =
     (let Temp = XOR_block Input (Encryptblock Rounds State Keys) in (Input, Temp))"

subsection \<open>Counter mode\<close>

text \<open>
  The counter update works on \<open>NC\<close>, the 16 bytes of the state.  An index outside
  \<open>0..15\<close> is outside the \<open>std::array\<close> and is the error \<open>OutOfBounds\<close>; the index
  \<open>14 - i\<close> is computed in \<open>int\<close> and is negative for \<open>i = 15\<close>.
\<close>

definition CTR_carry_BE :: "nat \<Rightarrow> u8 list \<Rightarrow> error + u8 list" where
  "CTR_carry_BE i NC =
     (if NC ! (15 - i) = 0
      then (if i \<le> 14 then Inr (NC[14 - i := NC ! (14 - i) + 1]) else Inl OutOfBounds)
      else Inr NC)"

definition CTR_carry_LE :: "nat \<Rightarrow> u8 list \<Rightarrow> error + u8 list" where
  "CTR_carry_LE i NC =
     (if NC ! i = 0
      then (if i + 1 < 16 then Inr (NC[i + 1 := NC ! (i + 1) + 1]) else Inl OutOfBounds)
      else Inr NC)"

fun CTR_loop :: "(nat \<Rightarrow> u8 list \<Rightarrow> error + u8 list) \<Rightarrow> nat list \<Rightarrow> u8 list \<Rightarrow> error + u8 list" where
  "CTR_loop f [] NC = Inr NC"
| "CTR_loop f (i # is) NC = (case f i NC of Inl e \<Rightarrow> Inl e | Inr NC' \<Rightarrow> CTR_loop f is NC')"

definition CTR_increment :: "nat \<Rightarrow> bool \<Rightarrow> u8 list \<Rightarrow> error + u8 list" where
  "CTR_increment Countersize Bigendian NC =
     (if Bigendian
      then CTR_loop CTR_carry_BE [0..<Countersize div 8] (NC[15 := NC ! 15 + 1])
      else CTR_loop CTR_carry_LE [0..<Countersize div 8] (NC[0 := NC ! 0 + 1]))"

definition Encryptblock_CTR ::
  "nat \<Rightarrow> nat \<Rightarrow> bool \<Rightarrow> Block_t \<Rightarrow> Block_t \<Rightarrow> Block_t list \<Rightarrow> error + (Block_t \<times> Block_t)" where
  "Encryptblock_CTR Rounds Countersize Bigendian State Input Keys =
     (let Temp = XOR_block Input (Encryptblock Rounds State Keys)
      in case CTR_increment Countersize Bigendian (block_bytes State) of
           Inl e \<Rightarrow> Inl e
         | Inr NC \<Rightarrow> Inr (bytes_block NC, Temp))"

definition Decryptblock_CTR ::
  "nat \<Rightarrow> nat \<Rightarrow> bool \<Rightarrow> Block_t \<Rightarrow> Block_t \<Rightarrow> Block_t list \<Rightarrow> error + (Block_t \<times> Block_t)" where
  "Decryptblock_CTR Rounds Countersize Bigendian State Input Keys =
     Encryptblock_CTR Rounds Countersize Bigendian State Input Keys"

subsection \<open>Tweak doubling\<close>

text \<open>
  \<open>HW::Mul128\<close> works on the sixteen bytes \<open>m128i_i8[0..15]\<close> of the register and uses
  no cipher instruction; it is modelled on the byte list.  The loop state is
  \<open>(Result, Carry)\<close>.
\<close>

definition HW_Mul128_step :: "nat \<Rightarrow> u8 list \<times> u8 \<Rightarrow> u8 list \<times> u8" where
  "HW_Mul128_step i RC =
     (let Result = fst RC; Carry = snd RC;
          Temp = (Result ! i) AND 0x80;
          R1 = Result[i := push_bit 1 (Result ! i)];
          R2 = R1[i := (R1 ! i) OR Carry]
      in (R2, drop_bit 7 Temp))"

definition HW_Mul128 :: "u8 list \<Rightarrow> u8 list" where
  "HW_Mul128 Value =
     (let RC = fold HW_Mul128_step [0..<16] (Value, 0);
          Result = fst RC;
          Carry = 0 - snd RC
      in Result[0 := (Result ! 0) XOR (0x87 AND Carry)])"

text \<open>
  \<open>Portable::Mul128\<close> copies the block into \<open>Result\<close>, a \<open>std::array<uint32_t, 4>\<close>,
  and runs \<open>for (int8_t i = 15; i >= 0; --i)\<close> over \<open>Result[i]\<close>.  An index above 3 is
  outside the array: \<open>OutOfBounds\<close>.
\<close>

definition Portable_Mul128_step :: "nat \<Rightarrow> u32 list \<times> u8 \<Rightarrow> error + (u32 list \<times> u8)" where
  "Portable_Mul128_step i RC =
     (let Result = fst RC; Carry = snd RC
      in if i < length Result
         then (let Temp = (ucast ((Result ! i) AND 0x80) :: u8)
               in Inr (Result[i := ucast ((ucast (push_bit 1 (Result ! i)) :: u8) OR Carry)],
                       drop_bit 7 Temp))
         else Inl OutOfBounds)"

fun Portable_Mul128_loop :: "nat list \<Rightarrow> u32 list \<times> u8 \<Rightarrow> error + (u32 list \<times> u8)" where
  "Portable_Mul128_loop [] RC = Inr RC"
| "Portable_Mul128_loop (i # is) RC =
     (case Portable_Mul128_step i RC of Inl e \<Rightarrow> Inl e | Inr RC' \<Rightarrow> Portable_Mul128_loop is RC')"

fun Portable_Mul128 :: "Block_t \<Rightarrow> error + Block_t" where
  "Portable_Mul128 (v0, v1, v2, v3) =
     (case Portable_Mul128_loop (rev [0..<16]) ([v0, v1, v2, v3], 0) of
        Inl e \<Rightarrow> Inl e
      | Inr (Result, Carry) \<Rightarrow>
          (let R = (if Carry \<noteq> 0 then Result[0 := (Result ! 0) XOR 0x87] else Result)
           in Inr (R ! 0, R ! 1, R ! 2, R ! 3)))"

text \<open>\<open>Modes::MUL128\<close>, the overload for \<open>Portable::Block_t\<close>, works on the bytes of the block.\<close>

definition MUL128_bytes :: "u8 list \<Rightarrow> u8 list" where
  "MUL128_bytes Input =
     (let Carry = drop_bit 7 (Input ! 15);
          Result = fold (\<lambda>i Result. Result[i := push_bit 1 (Result ! i) OR drop_bit 7 (Result ! (i - 1))])
                        (rev [1..<16]) Input
      in Result[0 := push_bit 1 (Result ! 0) XOR (Carry * 0x87)])"

definition MUL128 :: "Block_t \<Rightarrow> Block_t" where
  "MUL128 Input = bytes_block (MUL128_bytes (block_bytes Input))"

text \<open>
  The doubling as the specification words it: the 128-bit value is shifted left by one
  bit, byte 0 being the low-order byte, so the bit leaving byte \<open>i - 1\<close> enters byte \<open>i\<close>,
  and \<open>0x87\<close> is XORed into byte 0 exactly when the bit leaving byte 15 is set.
\<close>

definition spec_double :: "u8 list \<Rightarrow> u8 list" where
  "spec_double bs =
     map (\<lambda>i. if i = 0
               then push_bit 1 (bs ! 0) XOR (if bit (bs ! 15) 7 then 0x87 else 0)
               else push_bit 1 (bs ! i) OR (if bit (bs ! (i - 1)) 7 then 1 else 0))
         [0..<16]"

subsection \<open>XEX\<close>

definition Encryptblock_XEX ::
  "nat \<Rightarrow> Block_t \<Rightarrow> Block_t \<Rightarrow> Block_t list \<Rightarrow> error + (Block_t \<times> Block_t)" where
  "Encryptblock_XEX Rounds State Input Keys =
     (let Temp = Encryptblock Rounds (XOR_block Input State) Keys;
          Result = XOR_block Temp State
      in case Portable_Mul128 State of Inl e \<Rightarrow> Inl e | Inr State' \<Rightarrow> Inr (State', Result))"

definition Decryptblock_XEX ::
  "nat \<Rightarrow> Block_t \<Rightarrow> Block_t \<Rightarrow> Block_t list \<Rightarrow> error + (Block_t \<times> Block_t)" where
  "Decryptblock_XEX Rounds State Input Keys =
     (let Temp = Decryptblock Rounds (XOR_block Input State) Keys;
          Result = XOR_block Temp State
      in case Portable_Mul128 State of Inl e \<Rightarrow> Inl e | Inr State' \<Rightarrow> Inr (State', Result))"

section \<open>Tables and auxiliary functions used in the proofs\<close>

text \<open>The substitution box as published in FIPS-197, and its inverse.\<close>

definition FIPS_SBox :: "u8 list" where
  "FIPS_SBox =
    [0x63, 0x7c, 0x77, 0x7b, 0xf2, 0x6b, 0x6f, 0xc5, 0x30, 0x01, 0x67, 0x2b, 0xfe, 0xd7, 0xab, 0x76,
     0xca, 0x82, 0xc9, 0x7d, 0xfa, 0x59, 0x47, 0xf0, 0xad, 0xd4, 0xa2, 0xaf, 0x9c, 0xa4, 0x72, 0xc0,
     0xb7, 0xfd, 0x93, 0x26, 0x36, 0x3f, 0xf7, 0xcc, 0x34, 0xa5, 0xe5, 0xf1, 0x71, 0xd8, 0x31, 0x15,
     0x04, 0xc7, 0x23, 0xc3, 0x18, 0x96, 0x05, 0x9a, 0x07, 0x12, 0x80, 0xe2, 0xeb, 0x27, 0xb2, 0x75,
     0x09, 0x83, 0x2c, 0x1a, 0x1b, 0x6e, 0x5a, 0xa0, 0x52, 0x3b, 0xd6, 0xb3, 0x29, 0xe3, 0x2f, 0x84,
     0x53, 0xd1, 0x00, 0xed, 0x20, 0xfc, 0xb1, 0x5b, 0x6a, 0xcb, 0xbe, 0x39, 0x4a, 0x4c, 0x58, 0xcf,
     0xd0, 0xef, 0xaa, 0xfb, 0x43, 0x4d, 0x33, 0x85, 0x45, 0xf9, 0x02, 0x7f, 0x50, 0x3c, 0x9f, 0xa8,
     0x51, 0xa3, 0x40, 0x8f, 0x92, 0x9d, 0x38, 0xf5, 0xbc, 0xb6, 0xda, 0x21, 0x10, 0xff, 0xf3, 0xd2,
     0xcd, 0x0c, 0x13, 0xec, 0x5f, 0x97, 0x44, 0x17, 0xc4, 0xa7, 0x7e, 0x3d, 0x64, 0x5d, 0x19, 0x73,
     0x60, 0x81, 0x4f, 0xdc, 0x22, 0x2a, 0x90, 0x88, 0x46, 0xee, 0xb8, 0x14, 0xde, 0x5e, 0x0b, 0xdb,
     0xe0, 0x32, 0x3a, 0x0a, 0x49, 0x06, 0x24, 0x5c, 0xc2, 0xd3, 0xac, 0x62, 0x91, 0x95, 0xe4, 0x79,
     0xe7, 0xc8, 0x37, 0x6d, 0x8d, 0xd5, 0x4e, 0xa9, 0x6c, 0x56, 0xf4, 0xea, 0x65, 0x7a, 0xae, 0x08,
     0xba, 0x78, 0x25, 0x2e, 0x1c, 0xa6, 0xb4, 0xc6, 0xe8, 0xdd, 0x74, 0x1f, 0x4b, 0xbd, 0x8b, 0x8a,
     0x70, 0x3e, 0xb5, 0x66, 0x48, 0x03, 0xf6, 0x0e, 0x61, 0x35, 0x57, 0xb9, 0x86, 0xc1, 0x1d, 0x9e,
     0xe1, 0xf8, 0x98, 0x11, 0x69, 0xd9, 0x8e, 0x94, 0x9b, 0x1e, 0x87, 0xe9, 0xce, 0x55, 0x28, 0xdf,
     0x8c, 0xa1, 0x89, 0x0d, 0xbf, 0xe6, 0x42, 0x68, 0x41, 0x99, 0x2d, 0x0f, 0xb0, 0x54, 0xbb, 0x16]"

definition FIPS_INVSBox :: "u8 list" where
  "FIPS_INVSBox =
    [0x52, 0x09, 0x6a, 0xd5, 0x30, 0x36, 0xa5, 0x38, 0xbf, 0x40, 0xa3, 0x9e, 0x81, 0xf3, 0xd7, 0xfb,
     0x7c, 0xe3, 0x39, 0x82, 0x9b, 0x2f, 0xff, 0x87, 0x34, 0x8e, 0x43, 0x44, 0xc4, 0xde, 0xe9, 0xcb,
     0x54, 0x7b, 0x94, 0x32, 0xa6, 0xc2, 0x23, 0x3d, 0xee, 0x4c, 0x95, 0x0b, 0x42, 0xfa, 0xc3, 0x4e,
     0x08, 0x2e, 0xa1, 0x66, 0x28, 0xd9, 0x24, 0xb2, 0x76, 0x5b, 0xa2, 0x49, 0x6d, 0x8b, 0xd1, 0x25,
     0x72, 0xf8, 0xf6, 0x64, 0x86, 0x68, 0x98, 0x16, 0xd4, 0xa4, 0x5c, 0xcc, 0x5d, 0x65, 0xb6, 0x92,
     0x6c, 0x70, 0x48, 0x50, 0xfd, 0xed, 0xb9, 0xda, 0x5e, 0x15, 0x46, 0x57, 0xa7, 0x8d, 0x9d, 0x84,
     0x90, 0xd8, 0xab, 0x00, 0x8c, 0xbc, 0xd3, 0x0a, 0xf7, 0xe4, 0x58, 0x05, 0xb8, 0xb3, 0x45, 0x06,
     0xd0, 0x2c, 0x1e, 0x8f, 0xca, 0x3f, 0x0f, 0x02, 0xc1, 0xaf, 0xbd, 0x03, 0x01, 0x13, 0x8a, 0x6b,
     0x3a, 0x91, 0x11, 0x41, 0x4f, 0x67, 0xdc, 0xea, 0x97, 0xf2, 0xcf, 0xce, 0xf0, 0xb4, 0xe6, 0x73,
     0x96, 0xac, 0x74, 0x22, 0xe7, 0xad, 0x35, 0x85, 0xe2, 0xf9, 0x37, 0xe8, 0x1c, 0x75, 0xdf, 0x6e,
     0x47, 0xf1, 0x1a, 0x71, 0x1d, 0x29, 0xc5, 0x89, 0x6f, 0xb7, 0x62, 0x0e, 0xaa, 0x18, 0xbe, 0x1b,
     0xfc, 0x56, 0x3e, 0x4b, 0xc6, 0xd2, 0x79, 0x20, 0x9a, 0xdb, 0xc0, 0xfe, 0x78, 0xcd, 0x5a, 0xf4,
     0x1f, 0xdd, 0xa8, 0x33, 0x88, 0x07, 0xc7, 0x31, 0xb1, 0x12, 0x10, 0x59, 0x27, 0x80, 0xec, 0x5f,
     0x60, 0x51, 0x7f, 0xa9, 0x19, 0xb5, 0x4a, 0x0d, 0x2d, 0xe5, 0x7a, 0x9f, 0x93, 0xc9, 0x9c, 0xef,
     0xa0, 0xe0, 0x3b, 0x4d, 0xae, 0x2a, 0xf5, 0xb0, 0xc8, 0xeb, 0xbb, 0x3c, 0x83, 0x53, 0x99, 0x61,
     0x17, 0x2b, 0x04, 0x7e, 0xba, 0x77, 0xd6, 0x26, 0xe1, 0x69, 0x14, 0x63, 0x55, 0x21, 0x0c, 0x7d]"

text \<open>
  The writes \<open>Buffer[P] = Affine Q\<close> that the generator loop performs, as pairs of index
  and value, for at most \<open>n\<close> rounds from the state \<open>(P, Q)\<close>, stopping when \<open>P\<close> is back
  at 1.
\<close>

fun SBox_trace :: "nat \<Rightarrow> u8 \<Rightarrow> u8 \<Rightarrow> (nat \<times> u8) list" where
  "SBox_trace 0 P Q = []"
| "SBox_trace (Suc n) P Q =
     (unat (Mul3 P), Affine (Div3 Q)) # (if Mul3 P = 1 then [] else SBox_trace n (Mul3 P) (Div3 Q))"

definition SBox_writes :: "(nat \<times> u8) list" where
  "SBox_writes =
    [(3, 0x7b), (5, 0x6b), (15, 0x76), (17, 0x82), (51, 0xc3), (85, 0xfc), (255, 0x16), (26, 0xa2),
     (46, 0x31), (114, 0x40), (150, 0x90), (161, 0x32), (248, 0x41), (19, 0x7d), (53, 0x96), (95, 0xcf),
     (225, 0xf8), (56, 0x07), (72, 0x52), (216, 0x61), (115, 0x8f), (149, 0x2a), (164, 0x49), (247, 0x68),
     (2, 0x77), (6, 0x6f), (10, 0x67), (30, 0x72), (34, 0x93), (102, 0x33), (170, 0xac), (229, 0xd9),
     (52, 0x18), (92, 0x4a), (228, 0x69), (55, 0x9a), (89, 0xcb), (235, 0xe9), (38, 0xf7), (106, 0x02),
     (190, 0xae), (217, 0x35), (112, 0x51), (144, 0x60), (171, 0x62), (230, 0x8e), (49, 0xc7), (83, 0xed),
     (245, 0xe6), (4, 0xf2), (12, 0xfe), (20, 0xfa), (60, 0xeb), (68, 0x1b), (204, 0x4b), (79, 0x84),
     (209, 0x3e), (104, 0x45), (184, 0x6c), (211, 0x66), (110, 0x9f), (178, 0x37), (205, 0xbd), (76, 0x29),
     (212, 0x48), (103, 0x85), (169, 0xd3), (224, 0xe1), (59, 0xe2), (77, 0xe3), (215, 0x0e), (98, 0xaa),
     (166, 0x24), (241, 0xa1), (8, 0x30), (24, 0xad), (40, 0x34), (120, 0xbc), (136, 0xc4), (131, 0xec),
     (158, 0x0b), (185, 0x56), (208, 0x70), (107, 0x7f), (189, 0x7a), (220, 0x86), (127, 0xd2), (129, 0x0c),
     (152, 0x46), (179, 0x6d), (206, 0x8b), (73, 0x3b), (219, 0xb9), (118, 0x38), (154, 0xb8), (181, 0xd5),
     (196, 0x1c), (87, 0x5b), (249, 0x99), (16, 0xca), (48, 0x04), (80, 0x53), (240, 0x8c), (11, 0x2b),
     (29, 0xa4), (39, 0xcc), (105, 0xf9), (187, 0xea), (214, 0xf6), (97, 0xef), (163, 0x0a), (254, 0xbb),
     (25, 0xd4), (43, 0xf1), (125, 0xff), (135, 0x17), (146, 0x4f), (173, 0x95), (236, 0xce), (47, 0x15),
     (113, 0xa3), (147, 0xdc), (174, 0xe4), (233, 0x1e), (32, 0xb7), (96, 0xd0), (160, 0xe0), (251, 0x0f),
     (22, 0x47), (58, 0x80), (78, 0x2f), (210, 0xb5), (109, 0x3c), (183, 0xa9), (194, 0x25), (93, 0x4c),
     (231, 0x94), (50, 0x23), (86, 0xb1), (250, 0x2d), (21, 0x59), (63, 0x75), (65, 0x83), (195, 0x2e),
     (94, 0x58), (226, 0x98), (61, 0x27), (71, 0xa0), (201, 0xdd), (64, 0x09), (192, 0xba), (91, 0x39),
     (237, 0x55), (44, 0x71), (116, 0x92), (156, 0xde), (191, 0x08), (218, 0x57), (117, 0x9d), (159, 0xdb),
     (186, 0xf4), (213, 0x03), (100, 0x43), (172, 0x91), (239, 0xdf), (42, 0xe5), (126, 0xf3), (130, 0x13),
     (157, 0x5e), (188, 0x65), (223, 0x9e), (122, 0xda), (142, 0x19), (137, 0xa7), (128, 0xcd), (155, 0x14),
     (182, 0x4e), (193, 0x78), (88, 0x6a), (232, 0x9b), (35, 0x26), (101, 0x4d), (175, 0x79), (234, 0x87),
     (37, 0x3f), (111, 0xa8), (177, 0xc8), (200, 0xe8), (67, 0x1a), (197, 0xa6), (84, 0x20), (252, 0xb0),
     (31, 0xc0), (33, 0xfd), (99, 0xfb), (165, 0x06), (244, 0xbf), (7, 0xc5), (9, 0x01), (27, 0xaf),
     (45, 0xd8), (119, 0xf5), (153, 0xee), (176, 0xe7), (203, 0x1f), (70, 0x5a), (202, 0x74), (69, 0x6e),
     (207, 0x8a), (74, 0xd6), (222, 0x1d), (121, 0xb6), (139, 0x3d), (134, 0x44), (145, 0x81), (168, 0xc2),
     (227, 0x11), (62, 0xb2), (66, 0x2c), (198, 0xb4), (81, 0xd1), (243, 0x0d), (14, 0xab), (18, 0xc9),
     (54, 0x05), (90, 0xbe), (238, 0x28), (41, 0xa5), (123, 0x21), (141, 0x5d), (140, 0x64), (143, 0x73),
     (138, 0x7e), (133, 0x97), (148, 0x22), (167, 0x5c), (242, 0x89), (13, 0xd7), (23, 0xf0), (57, 0x12),
     (75, 0xb3), (221, 0xc1), (124, 0x10), (132, 0x5f), (151, 0x88), (162, 0x3a), (253, 0x54), (28, 0x9c),
     (36, 0x36), (108, 0x50), (180, 0x8d), (199, 0xc6), (82, 0x00), (246, 0x42), (1, 0x7c)]"

definition INVSBox_writes :: "(nat \<times> u8) list" where
  "INVSBox_writes =
    [(99, 0x00), (124, 0x01), (119, 0x02), (123, 0x03), (242, 0x04), (107, 0x05), (111, 0x06), (197, 0x07),
     (48, 0x08), (1, 0x09), (103, 0x0a), (43, 0x0b), (254, 0x0c), (215, 0x0d), (171, 0x0e), (118, 0x0f),
     (202, 0x10), (130, 0x11), (201, 0x12), (125, 0x13), (250, 0x14), (89, 0x15), (71, 0x16), (240, 0x17),
     (173, 0x18), (212, 0x19), (162, 0x1a), (175, 0x1b), (156, 0x1c), (164, 0x1d), (114, 0x1e), (192, 0x1f),
     (183, 0x20), (253, 0x21), (147, 0x22), (38, 0x23), (54, 0x24), (63, 0x25), (247, 0x26), (204, 0x27),
     (52, 0x28), (165, 0x29), (229, 0x2a), (241, 0x2b), (113, 0x2c), (216, 0x2d), (49, 0x2e), (21, 0x2f),
     (4, 0x30), (199, 0x31), (35, 0x32), (195, 0x33), (24, 0x34), (150, 0x35), (5, 0x36), (154, 0x37),
     (7, 0x38), (18, 0x39), (128, 0x3a), (226, 0x3b), (235, 0x3c), (39, 0x3d), (178, 0x3e), (117, 0x3f),
     (9, 0x40), (131, 0x41), (44, 0x42), (26, 0x43), (27, 0x44), (110, 0x45), (90, 0x46), (160, 0x47),
     (82, 0x48), (59, 0x49), (214, 0x4a), (179, 0x4b), (41, 0x4c), (227, 0x4d), (47, 0x4e), (132, 0x4f),
     (83, 0x50), (209, 0x51), (0, 0x52), (237, 0x53), (32, 0x54), (252, 0x55), (177, 0x56), (91, 0x57),
     (106, 0x58), (203, 0x59), (190, 0x5a), (57, 0x5b), (74, 0x5c), (76, 0x5d), (88, 0x5e), (207, 0x5f),
     (208, 0x60), (239, 0x61), (170, 0x62), (251, 0x63), (67, 0x64), (77, 0x65), (51, 0x66), (133, 0x67),
     (69, 0x68), (249, 0x69), (2, 0x6a), (127, 0x6b), (80, 0x6c), (60, 0x6d), (159, 0x6e), (168, 0x6f),
     (81, 0x70), (163, 0x71), (64, 0x72), (143, 0x73), (146, 0x74), (157, 0x75), (56, 0x76), (245, 0x77),
     (188, 0x78), (182, 0x79), (218, 0x7a), (33, 0x7b), (16, 0x7c), (255, 0x7d), (243, 0x7e), (210, 0x7f),
     (205, 0x80), (12, 0x81), (19, 0x82), (236, 0x83), (95, 0x84), (151, 0x85), (68, 0x86), (23, 0x87),
     (196, 0x88), (167, 0x89), (126, 0x8a), (61, 0x8b), (100, 0x8c), (93, 0x8d), (25, 0x8e), (115, 0x8f),
     (96, 0x90), (129, 0x91), (79, 0x92), (220, 0x93), (34, 0x94), (42, 0x95), (144, 0x96), (136, 0x97),
     (70, 0x98), (238, 0x99), (184, 0x9a), (20, 0x9b), (222, 0x9c), (94, 0x9d), (11, 0x9e), (219, 0x9f),
     (224, 0xa0), (50, 0xa1), (58, 0xa2), (10, 0xa3), (73, 0xa4), (6, 0xa5), (36, 0xa6), (92, 0xa7),
     (194, 0xa8), (211, 0xa9), (172, 0xaa), (98, 0xab), (145, 0xac), (149, 0xad), (228, 0xae), (121, 0xaf),
     (231, 0xb0), (200, 0xb1), (55, 0xb2), (109, 0xb3), (141, 0xb4), (213, 0xb5), (78, 0xb6), (169, 0xb7),
     (108, 0xb8), (86, 0xb9), (244, 0xba), (234, 0xbb), (101, 0xbc), (122, 0xbd), (174, 0xbe), (8, 0xbf),
     (186, 0xc0), (120, 0xc1), (37, 0xc2), (46, 0xc3), (28, 0xc4), (166, 0xc5), (180, 0xc6), (198, 0xc7),
     (232, 0xc8), (221, 0xc9), (116, 0xca), (31, 0xcb), (75, 0xcc), (189, 0xcd), (139, 0xce), (138, 0xcf),
     (112, 0xd0), (62, 0xd1), (181, 0xd2), (102, 0xd3), (72, 0xd4), (3, 0xd5), (246, 0xd6), (14, 0xd7),
     (97, 0xd8), (53, 0xd9), (87, 0xda), (185, 0xdb), (134, 0xdc), (193, 0xdd), (29, 0xde), (158, 0xdf),
     (225, 0xe0), (248, 0xe1), (152, 0xe2), (17, 0xe3), (105, 0xe4), (217, 0xe5), (142, 0xe6), (148, 0xe7),
     (155, 0xe8), (30, 0xe9), (135, 0xea), (233, 0xeb), (206, 0xec), (85, 0xed), (40, 0xee), (223, 0xef),
     (140, 0xf0), (161, 0xf1), (137, 0xf2), (13, 0xf3), (191, 0xf4), (230, 0xf5), (66, 0xf6), (104, 0xf7),
     (65, 0xf8), (153, 0xf9), (45, 0xfa), (15, 0xfb), (176, 0xfc), (84, 0xfd), (187, 0xfe), (22, 0xff)]"

definition write_all :: "(nat \<times> 'a) list \<Rightarrow> 'a list \<Rightarrow> 'a list" where
  "write_all ws B = fold (\<lambda>(i, v) B. B[i := v]) ws B"

definition zeros_256 :: "u8 list" where
  "zeros_256 =
    [0, 0, 0, 0, 0, 0, 0, 0, 0, 0, 0, 0, 0, 0, 0, 0,
     0, 0, 0, 0, 0, 0, 0, 0, 0, 0, 0, 0, 0, 0, 0, 0,
     0, 0, 0, 0, 0, 0, 0, 0, 0, 0, 0, 0, 0, 0, 0, 0,
     0, 0, 0, 0, 0, 0, 0, 0, 0, 0, 0, 0, 0, 0, 0, 0,
     0, 0, 0, 0, 0, 0, 0, 0, 0, 0, 0, 0, 0, 0, 0, 0,
     0, 0, 0, 0, 0, 0, 0, 0, 0, 0, 0, 0, 0, 0, 0, 0,
     0, 0, 0, 0, 0, 0, 0, 0, 0, 0, 0, 0, 0, 0, 0, 0,
     0, 0, 0, 0, 0, 0, 0, 0, 0, 0, 0, 0, 0, 0, 0, 0,
     0, 0, 0, 0, 0, 0, 0, 0, 0, 0, 0, 0, 0, 0, 0, 0,
     0, 0, 0, 0, 0, 0, 0, 0, 0, 0, 0, 0, 0, 0, 0, 0,
     0, 0, 0, 0, 0, 0, 0, 0, 0, 0, 0, 0, 0, 0, 0, 0,
     0, 0, 0, 0, 0, 0, 0, 0, 0, 0, 0, 0, 0, 0, 0, 0,
     0, 0, 0, 0, 0, 0, 0, 0, 0, 0, 0, 0, 0, 0, 0, 0,
     0, 0, 0, 0, 0, 0, 0, 0, 0, 0, 0, 0, 0, 0, 0, 0,
     0, 0, 0, 0, 0, 0, 0, 0, 0, 0, 0, 0, 0, 0, 0, 0,
     0, 0, 0, 0, 0, 0, 0, 0, 0, 0, 0, 0, 0, 0, 0, 0]"

definition indices_256 :: "nat list" where
  "indices_256 =
    [0x00, 0x01, 0x02, 0x03, 0x04, 0x05, 0x06, 0x07, 0x08, 0x09, 0x0A, 0x0B, 0x0C, 0x0D, 0x0E, 0x0F,
     0x10, 0x11, 0x12, 0x13, 0x14, 0x15, 0x16, 0x17, 0x18, 0x19, 0x1A, 0x1B, 0x1C, 0x1D, 0x1E, 0x1F,
     0x20, 0x21, 0x22, 0x23, 0x24, 0x25, 0x26, 0x27, 0x28, 0x29, 0x2A, 0x2B, 0x2C, 0x2D, 0x2E, 0x2F,
     0x30, 0x31, 0x32, 0x33, 0x34, 0x35, 0x36, 0x37, 0x38, 0x39, 0x3A, 0x3B, 0x3C, 0x3D, 0x3E, 0x3F,
     0x40, 0x41, 0x42, 0x43, 0x44, 0x45, 0x46, 0x47, 0x48, 0x49, 0x4A, 0x4B, 0x4C, 0x4D, 0x4E, 0x4F,
     0x50, 0x51, 0x52, 0x53, 0x54, 0x55, 0x56, 0x57, 0x58, 0x59, 0x5A, 0x5B, 0x5C, 0x5D, 0x5E, 0x5F,
     0x60, 0x61, 0x62, 0x63, 0x64, 0x65, 0x66, 0x67, 0x68, 0x69, 0x6A, 0x6B, 0x6C, 0x6D, 0x6E, 0x6F,
     0x70, 0x71, 0x72, 0x73, 0x74, 0x75, 0x76, 0x77, 0x78, 0x79, 0x7A, 0x7B, 0x7C, 0x7D, 0x7E, 0x7F,
     0x80, 0x81, 0x82, 0x83, 0x84, 0x85, 0x86, 0x87, 0x88, 0x89, 0x8A, 0x8B, 0x8C, 0x8D, 0x8E, 0x8F,
     0x90, 0x91, 0x92, 0x93, 0x94, 0x95, 0x96, 0x97, 0x98, 0x99, 0x9A, 0x9B, 0x9C, 0x9D, 0x9E, 0x9F,
     0xA0, 0xA1, 0xA2, 0xA3, 0xA4, 0xA5, 0xA6, 0xA7, 0xA8, 0xA9, 0xAA, 0xAB, 0xAC, 0xAD, 0xAE, 0xAF,
     0xB0, 0xB1, 0xB2, 0xB3, 0xB4, 0xB5, 0xB6, 0xB7, 0xB8, 0xB9, 0xBA, 0xBB, 0xBC, 0xBD, 0xBE, 0xBF,
     0xC0, 0xC1, 0xC2, 0xC3, 0xC4, 0xC5, 0xC6, 0xC7, 0xC8, 0xC9, 0xCA, 0xCB, 0xCC, 0xCD, 0xCE, 0xCF,
     0xD0, 0xD1, 0xD2, 0xD3, 0xD4, 0xD5, 0xD6, 0xD7, 0xD8, 0xD9, 0xDA, 0xDB, 0xDC, 0xDD, 0xDE, 0xDF,
     0xE0, 0xE1, 0xE2, 0xE3, 0xE4, 0xE5, 0xE6, 0xE7, 0xE8, 0xE9, 0xEA, 0xEB, 0xEC, 0xED, 0xEE, 0xEF,
     0xF0, 0xF1, 0xF2, 0xF3, 0xF4, 0xF5, 0xF6, 0xF7, 0xF8, 0xF9, 0xFA, 0xFB, 0xFC, 0xFD, 0xFE, 0xFF]"


section \<open>Evaluation lemmas\<close>

lemma upt_0_4: "[0..<4] = [0, 1, 2, 3]"
  by (simp add: upt_rec)

lemma list_update_Cons_numeral: "(x # xs)[numeral v := y] = x # xs[numeral v - 1 := y]"
  by (simp add: numeral_eq_Suc)

section \<open>Counter increment\<close>

text \<open>
  C3 (the counter step adds one inside the configured window and leaves the other
  bytes alone).  With a 32-bit big-endian counter the window is bytes 12 to 15.  At the
  counter value \<open>0xFFFFFFFF\<close> (state bytes 12 to 15 all \<open>0xFF\<close>, every other byte zero)
  the carry loop runs \<open>Countersize / 8 = 4\<close> times and its last round carries from byte
  12 into byte 11: the window wraps to zero, but byte 11, outside the window, becomes 1.
  The result does not depend on the input block or on the round keys.
\<close>

theorem CTR_increment_carries_out_of_window:
  "map_sum id (block_bytes \<circ> fst)
      (Encryptblock_CTR Rounds 32 True (0, 0, 0, 0xFFFFFFFF) Input Keys)
     = Inr [0, 0, 0, 0,  0, 0, 0, 0,  0, 0, 0, 1,  0, 0, 0, 0]"
  by (simp add: Encryptblock_CTR_def CTR_increment_def CTR_carry_BE_def upt_0_4 word_bytes_def
      bytes_block_def bytes_word_def list_update_Cons_numeral Let_def)

text \<open>
  The carry test is \<open>NC[15 - i] == 0\<close>, so a byte that is zero without having
  overflowed also carries: from the counter value 5 the step yields the window
  \<open>00 01 00 06\<close> and again increments byte 11.
\<close>

lemma CTR_increment_zero_byte_carries:
  "map_sum id (block_bytes \<circ> fst)
      (Encryptblock_CTR Rounds 32 True (0, 0, 0, 0x05000000) Input Keys)
     = Inr [0, 0, 0, 0,  0, 0, 0, 0,  0, 0, 0, 1,  0, 1, 0, 6]"
  by (simp add: Encryptblock_CTR_def CTR_increment_def CTR_carry_BE_def upt_0_4 word_bytes_def
      bytes_block_def bytes_word_def list_update_Cons_numeral Let_def)

section \<open>Tweak doubling\<close>

lemma Portable_Mul128_fails: "Portable_Mul128 Value = Inl OutOfBounds"
  by (cases Value) (simp add: Portable_Mul128_step_def upt_rec)

text \<open>
  C4 (the three doubling functions all compute the shift-and-reduce of the
  specification).  \<open>HW::Mul128\<close> and \<open>Modes::MUL128\<close> do; \<open>Portable::Mul128\<close> starts its
  loop at \<open>Result[15]\<close> of a four-element array and has no result, here at the block
  whose bytes 0 and 15 are \<open>0x80\<close>.
\<close>

theorem Portable_Mul128_differs:
  "Portable_Mul128 (0x80, 0, 0, 0x80000000) = Inl OutOfBounds
   \<and> HW_Mul128 (block_bytes (0x80, 0, 0, 0x80000000)) = spec_double (block_bytes (0x80, 0, 0, 0x80000000))
   \<and> block_bytes (MUL128 (0x80, 0, 0, 0x80000000)) = spec_double (block_bytes (0x80, 0, 0, 0x80000000))
   \<and> spec_double (block_bytes (0x80, 0, 0, 0x80000000)) = [0x87, 1, 0, 0,  0, 0, 0, 0,  0, 0, 0, 0,  0, 0, 0, 0]"
  by (simp add: Portable_Mul128_fails HW_Mul128_def HW_Mul128_step_def MUL128_def MUL128_bytes_def
      spec_double_def word_bytes_def bytes_block_def bytes_word_def upt_rec list_update_Cons_numeral
      Let_def)

section \<open>The generated substitution box\<close>

lemma u8_mask: "(x::u8) AND 0xFF = x"
proof -
  have "(0xFF::u8) = - 1" by simp
  then show ?thesis by (simp only: and.right_neutral)
qed

lemma Mul3_eval: "Mul3 x = ((push_bit 1 x XOR drop_bit 7 x * 0x1B) XOR x) AND 0xFF"
  by (simp only: Mul3_def Mul2_def u8_mask)

lemma Div3_eval:
  "Div3 x =
     (let I1 = (x XOR push_bit 1 x) AND 0xFF;
          I2 = (I1 XOR push_bit 2 I1) AND 0xFF;
          I3 = (I2 XOR push_bit 4 I2) AND 0xFF
      in (I3 XOR (drop_bit 7 I3 * 0x09)) AND 0xFF)"
  by (simp only: Div3_def u8_mask)

lemma Affine_eval:
  "Affine Q = (0x63 XOR (Q XOR (push_bit 1 Q OR drop_bit 7 Q) XOR (push_bit 2 Q OR drop_bit 6 Q)
       XOR (push_bit 3 Q OR drop_bit 5 Q) XOR (push_bit 4 Q OR drop_bit 4 Q))) AND 0xFF"
proof -
  have "rotl8 Q 1 = push_bit 1 Q OR drop_bit 7 Q" "rotl8 Q 2 = push_bit 2 Q OR drop_bit 6 Q"
       "rotl8 Q 3 = push_bit 3 Q OR drop_bit 5 Q" "rotl8 Q 4 = push_bit 4 Q OR drop_bit 4 Q"
    unfolding rotl8_def by simp_all
  then show ?thesis by (simp only: Affine_def u8_mask)
qed

lemma SBox_trace_numeral:
  "SBox_trace (numeral k) P Q =
     (let P' = Mul3 P; Q' = Div3 Q
      in (unat P', Affine Q') # (if P' = 1 then [] else SBox_trace (pred_numeral k) P' Q'))"
  by (simp add: numeral_eq_Suc Let_def)


lemma SBox_trace_eval: "SBox_trace 255 1 1 = SBox_writes"
  unfolding SBox_writes_def
  by (simp add: SBox_trace_numeral Mul3_eval Div3_eval Affine_eval)

lemma unat_eq_one: "unat (x::u8) = Suc 0 \<Longrightarrow> x = 1"
  by (metis One_nat_def unat_1 word_unat_eq_iff)

lemma SBox_loop_trace:
  "SBox_trace n P Q = tr \<Longrightarrow> tr \<noteq> [] \<Longrightarrow> fst (last tr) = 1 \<Longrightarrow>
   SBox_loop P Q B W = Some (write_all tr B, W @ map fst tr)"
proof (induction n arbitrary: P Q B W tr)
  case 0
  then show ?case by simp
next
  case (Suc n)
  show ?case
  proof (cases "Mul3 P = 1")
    case True
    with Suc.prems(1) have "tr = [(unat (Mul3 P), Affine (Div3 Q))]" by simp
    with True show ?thesis
      by (subst SBox_loop.simps) (simp add: write_all_def)
  next
    case False
    define rest where "rest = SBox_trace n (Mul3 P) (Div3 Q)"
    from False Suc.prems(1) have tr: "tr = (unat (Mul3 P), Affine (Div3 Q)) # rest"
      by (simp add: rest_def)
    have ne: "rest \<noteq> []"
    proof
      assume "rest = []"
      with tr Suc.prems(3) have "unat (Mul3 P) = 1" by simp
      with False show False by (auto dest: unat_eq_one)
    qed
    with tr Suc.prems(3) have "fst (last rest) = 1" by simp
    with ne have "SBox_loop (Mul3 P) (Div3 Q) (B[unat (Mul3 P) := Affine (Div3 Q)]) (W @ [unat (Mul3 P)])
        = Some (write_all rest (B[unat (Mul3 P) := Affine (Div3 Q)]), (W @ [unat (Mul3 P)]) @ map fst rest)"
      using Suc.IH [of "Mul3 P" "Div3 Q" rest] by (simp add: rest_def)
    with False tr show ?thesis
      by (subst SBox_loop.simps) (simp add: write_all_def)
  qed
qed

lemma replicate_numeral: "replicate (numeral k) x = x # replicate (pred_numeral k) x"
  by (simp add: numeral_eq_Suc)

lemma zeros_256: "replicate 256 (0::u8) = zeros_256"
  by (simp only: zeros_256_def replicate_numeral pred_numeral_simps BitM.simps replicate.simps)

lemma list_update_numeral: "(x # xs)[numeral v := y] = x # xs[pred_numeral v := y]"
  by (simp add: numeral_eq_Suc)

lemma list_update_1: "(x # xs)[1 := y] = x # xs[0 := y]"
  by simp

lemma nth_numeral: "(x # xs) ! numeral v = xs ! pred_numeral v"
  by (simp add: numeral_eq_Suc)

lemmas list_eval = fold_simps prod.case list_update_numeral list_update_1 list_update_code(2)
  nth_numeral nth_Cons_0 nth_Cons_Suc pred_numeral_simps BitM.simps

lemma write_all_SBox: "(write_all SBox_writes zeros_256)[0 := 0x63] = FIPS_SBox"
  by (simp only: write_all_def SBox_writes_def zeros_256_def FIPS_SBox_def list_eval)

lemma SBox_loop_result:
  "SBox_loop 1 1 (replicate 256 0) [] = Some (write_all SBox_writes zeros_256, map fst SBox_writes)"
proof -
  have "SBox_writes \<noteq> []" "fst (last SBox_writes) = 1"
    by (simp_all add: SBox_writes_def)
  with SBox_loop_trace [OF SBox_trace_eval] show ?thesis
    by (simp add: zeros_256)
qed

lemma SBox_gen_eq: "SBox_gen = Some FIPS_SBox"
  by (simp add: SBox_gen_def SBox_loop_result write_all_SBox)

lemma SBox_eq: "SBox = FIPS_SBox"
  by (simp add: SBox_def SBox_gen_eq)

lemma SBox_nth:
  "SBox ! 0 = 0x63" "SBox ! Suc 0 = 0x7c" "SBox ! 2 = 0x77" "SBox ! 3 = 0x7b"
  "SBox ! 4 = 0xf2" "SBox ! 5 = 0x6b" "SBox ! 6 = 0x6f" "SBox ! 7 = 0xc5"
  "SBox ! 8 = 0x30" "SBox ! 9 = 0x01" "SBox ! 10 = 0x67" "SBox ! 11 = 0x2b"
  "SBox ! 12 = 0xfe" "SBox ! 13 = 0xd7" "SBox ! 14 = 0xab" "SBox ! 15 = 0x76"
  "SBox ! 16 = 0xca" "SBox ! 17 = 0x82" "SBox ! 18 = 0xc9" "SBox ! 19 = 0x7d"
  "SBox ! 20 = 0xfa" "SBox ! 21 = 0x59" "SBox ! 22 = 0x47" "SBox ! 23 = 0xf0"
  "SBox ! 24 = 0xad" "SBox ! 25 = 0xd4" "SBox ! 26 = 0xa2" "SBox ! 27 = 0xaf"
  "SBox ! 28 = 0x9c" "SBox ! 29 = 0xa4" "SBox ! 30 = 0x72" "SBox ! 31 = 0xc0"
  "SBox ! 32 = 0xb7" "SBox ! 33 = 0xfd" "SBox ! 34 = 0x93" "SBox ! 35 = 0x26"
  "SBox ! 36 = 0x36" "SBox ! 37 = 0x3f" "SBox ! 38 = 0xf7" "SBox ! 39 = 0xcc"
  "SBox ! 40 = 0x34" "SBox ! 41 = 0xa5" "SBox ! 42 = 0xe5" "SBox ! 43 = 0xf1"
  "SBox ! 44 = 0x71" "SBox ! 45 = 0xd8" "SBox ! 46 = 0x31" "SBox ! 47 = 0x15"
  "SBox ! 48 = 0x04" "SBox ! 49 = 0xc7" "SBox ! 50 = 0x23" "SBox ! 51 = 0xc3"
  "SBox ! 52 = 0x18" "SBox ! 53 = 0x96" "SBox ! 54 = 0x05" "SBox ! 55 = 0x9a"
  "SBox ! 56 = 0x07" "SBox ! 57 = 0x12" "SBox ! 58 = 0x80" "SBox ! 59 = 0xe2"
  "SBox ! 60 = 0xeb" "SBox ! 61 = 0x27" "SBox ! 62 = 0xb2" "SBox ! 63 = 0x75"
  "SBox ! 64 = 0x09" "SBox ! 65 = 0x83" "SBox ! 66 = 0x2c" "SBox ! 67 = 0x1a"
  "SBox ! 68 = 0x1b" "SBox ! 69 = 0x6e" "SBox ! 70 = 0x5a" "SBox ! 71 = 0xa0"
  "SBox ! 72 = 0x52" "SBox ! 73 = 0x3b" "SBox ! 74 = 0xd6" "SBox ! 75 = 0xb3"
  "SBox ! 76 = 0x29" "SBox ! 77 = 0xe3" "SBox ! 78 = 0x2f" "SBox ! 79 = 0x84"
  "SBox ! 80 = 0x53" "SBox ! 81 = 0xd1" "SBox ! 82 = 0x00" "SBox ! 83 = 0xed"
  "SBox ! 84 = 0x20" "SBox ! 85 = 0xfc" "SBox ! 86 = 0xb1" "SBox ! 87 = 0x5b"
  "SBox ! 88 = 0x6a" "SBox ! 89 = 0xcb" "SBox ! 90 = 0xbe" "SBox ! 91 = 0x39"
  "SBox ! 92 = 0x4a" "SBox ! 93 = 0x4c" "SBox ! 94 = 0x58" "SBox ! 95 = 0xcf"
  "SBox ! 96 = 0xd0" "SBox ! 97 = 0xef" "SBox ! 98 = 0xaa" "SBox ! 99 = 0xfb"
  "SBox ! 100 = 0x43" "SBox ! 101 = 0x4d" "SBox ! 102 = 0x33" "SBox ! 103 = 0x85"
  "SBox ! 104 = 0x45" "SBox ! 105 = 0xf9" "SBox ! 106 = 0x02" "SBox ! 107 = 0x7f"
  "SBox ! 108 = 0x50" "SBox ! 109 = 0x3c" "SBox ! 110 = 0x9f" "SBox ! 111 = 0xa8"
  "SBox ! 112 = 0x51" "SBox ! 113 = 0xa3" "SBox ! 114 = 0x40" "SBox ! 115 = 0x8f"
  "SBox ! 116 = 0x92" "SBox ! 117 = 0x9d" "SBox ! 118 = 0x38" "SBox ! 119 = 0xf5"
  "SBox ! 120 = 0xbc" "SBox ! 121 = 0xb6" "SBox ! 122 = 0xda" "SBox ! 123 = 0x21"
  "SBox ! 124 = 0x10" "SBox ! 125 = 0xff" "SBox ! 126 = 0xf3" "SBox ! 127 = 0xd2"
  "SBox ! 128 = 0xcd" "SBox ! 129 = 0x0c" "SBox ! 130 = 0x13" "SBox ! 131 = 0xec"
  "SBox ! 132 = 0x5f" "SBox ! 133 = 0x97" "SBox ! 134 = 0x44" "SBox ! 135 = 0x17"
  "SBox ! 136 = 0xc4" "SBox ! 137 = 0xa7" "SBox ! 138 = 0x7e" "SBox ! 139 = 0x3d"
  "SBox ! 140 = 0x64" "SBox ! 141 = 0x5d" "SBox ! 142 = 0x19" "SBox ! 143 = 0x73"
  "SBox ! 144 = 0x60" "SBox ! 145 = 0x81" "SBox ! 146 = 0x4f" "SBox ! 147 = 0xdc"
  "SBox ! 148 = 0x22" "SBox ! 149 = 0x2a" "SBox ! 150 = 0x90" "SBox ! 151 = 0x88"
  "SBox ! 152 = 0x46" "SBox ! 153 = 0xee" "SBox ! 154 = 0xb8" "SBox ! 155 = 0x14"
  "SBox ! 156 = 0xde" "SBox ! 157 = 0x5e" "SBox ! 158 = 0x0b" "SBox ! 159 = 0xdb"
  "SBox ! 160 = 0xe0" "SBox ! 161 = 0x32" "SBox ! 162 = 0x3a" "SBox ! 163 = 0x0a"
  "SBox ! 164 = 0x49" "SBox ! 165 = 0x06" "SBox ! 166 = 0x24" "SBox ! 167 = 0x5c"
  "SBox ! 168 = 0xc2" "SBox ! 169 = 0xd3" "SBox ! 170 = 0xac" "SBox ! 171 = 0x62"
  "SBox ! 172 = 0x91" "SBox ! 173 = 0x95" "SBox ! 174 = 0xe4" "SBox ! 175 = 0x79"
  "SBox ! 176 = 0xe7" "SBox ! 177 = 0xc8" "SBox ! 178 = 0x37" "SBox ! 179 = 0x6d"
  "SBox ! 180 = 0x8d" "SBox ! 181 = 0xd5" "SBox ! 182 = 0x4e" "SBox ! 183 = 0xa9"
  "SBox ! 184 = 0x6c" "SBox ! 185 = 0x56" "SBox ! 186 = 0xf4" "SBox ! 187 = 0xea"
  "SBox ! 188 = 0x65" "SBox ! 189 = 0x7a" "SBox ! 190 = 0xae" "SBox ! 191 = 0x08"
  "SBox ! 192 = 0xba" "SBox ! 193 = 0x78" "SBox ! 194 = 0x25" "SBox ! 195 = 0x2e"
  "SBox ! 196 = 0x1c" "SBox ! 197 = 0xa6" "SBox ! 198 = 0xb4" "SBox ! 199 = 0xc6"
  "SBox ! 200 = 0xe8" "SBox ! 201 = 0xdd" "SBox ! 202 = 0x74" "SBox ! 203 = 0x1f"
  "SBox ! 204 = 0x4b" "SBox ! 205 = 0xbd" "SBox ! 206 = 0x8b" "SBox ! 207 = 0x8a"
  "SBox ! 208 = 0x70" "SBox ! 209 = 0x3e" "SBox ! 210 = 0xb5" "SBox ! 211 = 0x66"
  "SBox ! 212 = 0x48" "SBox ! 213 = 0x03" "SBox ! 214 = 0xf6" "SBox ! 215 = 0x0e"
  "SBox ! 216 = 0x61" "SBox ! 217 = 0x35" "SBox ! 218 = 0x57" "SBox ! 219 = 0xb9"
  "SBox ! 220 = 0x86" "SBox ! 221 = 0xc1" "SBox ! 222 = 0x1d" "SBox ! 223 = 0x9e"
  "SBox ! 224 = 0xe1" "SBox ! 225 = 0xf8" "SBox ! 226 = 0x98" "SBox ! 227 = 0x11"
  "SBox ! 228 = 0x69" "SBox ! 229 = 0xd9" "SBox ! 230 = 0x8e" "SBox ! 231 = 0x94"
  "SBox ! 232 = 0x9b" "SBox ! 233 = 0x1e" "SBox ! 234 = 0x87" "SBox ! 235 = 0xe9"
  "SBox ! 236 = 0xce" "SBox ! 237 = 0x55" "SBox ! 238 = 0x28" "SBox ! 239 = 0xdf"
  "SBox ! 240 = 0x8c" "SBox ! 241 = 0xa1" "SBox ! 242 = 0x89" "SBox ! 243 = 0x0d"
  "SBox ! 244 = 0xbf" "SBox ! 245 = 0xe6" "SBox ! 246 = 0x42" "SBox ! 247 = 0x68"
  "SBox ! 248 = 0x41" "SBox ! 249 = 0x99" "SBox ! 250 = 0x2d" "SBox ! 251 = 0x0f"
  "SBox ! 252 = 0xb0" "SBox ! 253 = 0x54" "SBox ! 254 = 0xbb" "SBox ! 255 = 0x16"
  by (simp_all only: SBox_eq FIPS_SBox_def list_eval)


section \<open>The inverse substitution box\<close>

lemma fold_write_all:
  "fold (\<lambda>i B. B[f i := g i]) ixs B = write_all (map (\<lambda>i. (f i, g i)) ixs) B"
  by (induction ixs arbitrary: B) (simp_all add: write_all_def)

lemma upt_256: "[0..<256] = indices_256"
  by (simp add: indices_256_def upt_rec)

lemma INVSBox_writes_eval:
  "map (\<lambda>i. (unat (SBox ! i), of_nat i :: u8)) indices_256 = INVSBox_writes"
  by (simp add: indices_256_def INVSBox_writes_def SBox_nth)

lemma write_all_INVSBox: "write_all INVSBox_writes zeros_256 = FIPS_INVSBox"
  by (simp only: write_all_def INVSBox_writes_def zeros_256_def FIPS_INVSBox_def list_eval)

lemma INVSBox_eq: "INVSBox = FIPS_INVSBox"
  by (simp only: INVSBox_def fold_write_all upt_256 INVSBox_writes_eval zeros_256 write_all_INVSBox)

lemma INVSBox_nth:
  "INVSBox ! 0 = 0x52" "INVSBox ! Suc 0 = 0x09" "INVSBox ! 2 = 0x6a" "INVSBox ! 3 = 0xd5"
  "INVSBox ! 4 = 0x30" "INVSBox ! 5 = 0x36" "INVSBox ! 6 = 0xa5" "INVSBox ! 7 = 0x38"
  "INVSBox ! 8 = 0xbf" "INVSBox ! 9 = 0x40" "INVSBox ! 10 = 0xa3" "INVSBox ! 11 = 0x9e"
  "INVSBox ! 12 = 0x81" "INVSBox ! 13 = 0xf3" "INVSBox ! 14 = 0xd7" "INVSBox ! 15 = 0xfb"
  "INVSBox ! 16 = 0x7c" "INVSBox ! 17 = 0xe3" "INVSBox ! 18 = 0x39" "INVSBox ! 19 = 0x82"
  "INVSBox ! 20 = 0x9b" "INVSBox ! 21 = 0x2f" "INVSBox ! 22 = 0xff" "INVSBox ! 23 = 0x87"
  "INVSBox ! 24 = 0x34" "INVSBox ! 25 = 0x8e" "INVSBox ! 26 = 0x43" "INVSBox ! 27 = 0x44"
  "INVSBox ! 28 = 0xc4" "INVSBox ! 29 = 0xde" "INVSBox ! 30 = 0xe9" "INVSBox ! 31 = 0xcb"
  "INVSBox ! 32 = 0x54" "INVSBox ! 33 = 0x7b" "INVSBox ! 34 = 0x94" "INVSBox ! 35 = 0x32"
  "INVSBox ! 36 = 0xa6" "INVSBox ! 37 = 0xc2" "INVSBox ! 38 = 0x23" "INVSBox ! 39 = 0x3d"
  "INVSBox ! 40 = 0xee" "INVSBox ! 41 = 0x4c" "INVSBox ! 42 = 0x95" "INVSBox ! 43 = 0x0b"
  "INVSBox ! 44 = 0x42" "INVSBox ! 45 = 0xfa" "INVSBox ! 46 = 0xc3" "INVSBox ! 47 = 0x4e"
  "INVSBox ! 48 = 0x08" "INVSBox ! 49 = 0x2e" "INVSBox ! 50 = 0xa1" "INVSBox ! 51 = 0x66"
  "INVSBox ! 52 = 0x28" "INVSBox ! 53 = 0xd9" "INVSBox ! 54 = 0x24" "INVSBox ! 55 = 0xb2"
  "INVSBox ! 56 = 0x76" "INVSBox ! 57 = 0x5b" "INVSBox ! 58 = 0xa2" "INVSBox ! 59 = 0x49"
  "INVSBox ! 60 = 0x6d" "INVSBox ! 61 = 0x8b" "INVSBox ! 62 = 0xd1" "INVSBox ! 63 = 0x25"
  "INVSBox ! 64 = 0x72" "INVSBox ! 65 = 0xf8" "INVSBox ! 66 = 0xf6" "INVSBox ! 67 = 0x64"
  "INVSBox ! 68 = 0x86" "INVSBox ! 69 = 0x68" "INVSBox ! 70 = 0x98" "INVSBox ! 71 = 0x16"
  "INVSBox ! 72 = 0xd4" "INVSBox ! 73 = 0xa4" "INVSBox ! 74 = 0x5c" "INVSBox ! 75 = 0xcc"
  "INVSBox ! 76 = 0x5d" "INVSBox ! 77 = 0x65" "INVSBox ! 78 = 0xb6" "INVSBox ! 79 = 0x92"
  "INVSBox ! 80 = 0x6c" "INVSBox ! 81 = 0x70" "INVSBox ! 82 = 0x48" "INVSBox ! 83 = 0x50"
  "INVSBox ! 84 = 0xfd" "INVSBox ! 85 = 0xed" "INVSBox ! 86 = 0xb9" "INVSBox ! 87 = 0xda"
  "INVSBox ! 88 = 0x5e" "INVSBox ! 89 = 0x15" "INVSBox ! 90 = 0x46" "INVSBox ! 91 = 0x57"
  "INVSBox ! 92 = 0xa7" "INVSBox ! 93 = 0x8d" "INVSBox ! 94 = 0x9d" "INVSBox ! 95 = 0x84"
  "INVSBox ! 96 = 0x90" "INVSBox ! 97 = 0xd8" "INVSBox ! 98 = 0xab" "INVSBox ! 99 = 0x00"
  "INVSBox ! 100 = 0x8c" "INVSBox ! 101 = 0xbc" "INVSBox ! 102 = 0xd3" "INVSBox ! 103 = 0x0a"
  "INVSBox ! 104 = 0xf7" "INVSBox ! 105 = 0xe4" "INVSBox ! 106 = 0x58" "INVSBox ! 107 = 0x05"
  "INVSBox ! 108 = 0xb8" "INVSBox ! 109 = 0xb3" "INVSBox ! 110 = 0x45" "INVSBox ! 111 = 0x06"
  "INVSBox ! 112 = 0xd0" "INVSBox ! 113 = 0x2c" "INVSBox ! 114 = 0x1e" "INVSBox ! 115 = 0x8f"
  "INVSBox ! 116 = 0xca" "INVSBox ! 117 = 0x3f" "INVSBox ! 118 = 0x0f" "INVSBox ! 119 = 0x02"
  "INVSBox ! 120 = 0xc1" "INVSBox ! 121 = 0xaf" "INVSBox ! 122 = 0xbd" "INVSBox ! 123 = 0x03"
  "INVSBox ! 124 = 0x01" "INVSBox ! 125 = 0x13" "INVSBox ! 126 = 0x8a" "INVSBox ! 127 = 0x6b"
  "INVSBox ! 128 = 0x3a" "INVSBox ! 129 = 0x91" "INVSBox ! 130 = 0x11" "INVSBox ! 131 = 0x41"
  "INVSBox ! 132 = 0x4f" "INVSBox ! 133 = 0x67" "INVSBox ! 134 = 0xdc" "INVSBox ! 135 = 0xea"
  "INVSBox ! 136 = 0x97" "INVSBox ! 137 = 0xf2" "INVSBox ! 138 = 0xcf" "INVSBox ! 139 = 0xce"
  "INVSBox ! 140 = 0xf0" "INVSBox ! 141 = 0xb4" "INVSBox ! 142 = 0xe6" "INVSBox ! 143 = 0x73"
  "INVSBox ! 144 = 0x96" "INVSBox ! 145 = 0xac" "INVSBox ! 146 = 0x74" "INVSBox ! 147 = 0x22"
  "INVSBox ! 148 = 0xe7" "INVSBox ! 149 = 0xad" "INVSBox ! 150 = 0x35" "INVSBox ! 151 = 0x85"
  "INVSBox ! 152 = 0xe2" "INVSBox ! 153 = 0xf9" "INVSBox ! 154 = 0x37" "INVSBox ! 155 = 0xe8"
  "INVSBox ! 156 = 0x1c" "INVSBox ! 157 = 0x75" "INVSBox ! 158 = 0xdf" "INVSBox ! 159 = 0x6e"
  "INVSBox ! 160 = 0x47" "INVSBox ! 161 = 0xf1" "INVSBox ! 162 = 0x1a" "INVSBox ! 163 = 0x71"
  "INVSBox ! 164 = 0x1d" "INVSBox ! 165 = 0x29" "INVSBox ! 166 = 0xc5" "INVSBox ! 167 = 0x89"
  "INVSBox ! 168 = 0x6f" "INVSBox ! 169 = 0xb7" "INVSBox ! 170 = 0x62" "INVSBox ! 171 = 0x0e"
  "INVSBox ! 172 = 0xaa" "INVSBox ! 173 = 0x18" "INVSBox ! 174 = 0xbe" "INVSBox ! 175 = 0x1b"
  "INVSBox ! 176 = 0xfc" "INVSBox ! 177 = 0x56" "INVSBox ! 178 = 0x3e" "INVSBox ! 179 = 0x4b"
  "INVSBox ! 180 = 0xc6" "INVSBox ! 181 = 0xd2" "INVSBox ! 182 = 0x79" "INVSBox ! 183 = 0x20"
  "INVSBox ! 184 = 0x9a" "INVSBox ! 185 = 0xdb" "INVSBox ! 186 = 0xc0" "INVSBox ! 187 = 0xfe"
  "INVSBox ! 188 = 0x78" "INVSBox ! 189 = 0xcd" "INVSBox ! 190 = 0x5a" "INVSBox ! 191 = 0xf4"
  "INVSBox ! 192 = 0x1f" "INVSBox ! 193 = 0xdd" "INVSBox ! 194 = 0xa8" "INVSBox ! 195 = 0x33"
  "INVSBox ! 196 = 0x88" "INVSBox ! 197 = 0x07" "INVSBox ! 198 = 0xc7" "INVSBox ! 199 = 0x31"
  "INVSBox ! 200 = 0xb1" "INVSBox ! 201 = 0x12" "INVSBox ! 202 = 0x10" "INVSBox ! 203 = 0x59"
  "INVSBox ! 204 = 0x27" "INVSBox ! 205 = 0x80" "INVSBox ! 206 = 0xec" "INVSBox ! 207 = 0x5f"
  "INVSBox ! 208 = 0x60" "INVSBox ! 209 = 0x51" "INVSBox ! 210 = 0x7f" "INVSBox ! 211 = 0xa9"
  "INVSBox ! 212 = 0x19" "INVSBox ! 213 = 0xb5" "INVSBox ! 214 = 0x4a" "INVSBox ! 215 = 0x0d"
  "INVSBox ! 216 = 0x2d" "INVSBox ! 217 = 0xe5" "INVSBox ! 218 = 0x7a" "INVSBox ! 219 = 0x9f"
  "INVSBox ! 220 = 0x93" "INVSBox ! 221 = 0xc9" "INVSBox ! 222 = 0x9c" "INVSBox ! 223 = 0xef"
  "INVSBox ! 224 = 0xa0" "INVSBox ! 225 = 0xe0" "INVSBox ! 226 = 0x3b" "INVSBox ! 227 = 0x4d"
  "INVSBox ! 228 = 0xae" "INVSBox ! 229 = 0x2a" "INVSBox ! 230 = 0xf5" "INVSBox ! 231 = 0xb0"
  "INVSBox ! 232 = 0xc8" "INVSBox ! 233 = 0xeb" "INVSBox ! 234 = 0xbb" "INVSBox ! 235 = 0x3c"
  "INVSBox ! 236 = 0x83" "INVSBox ! 237 = 0x53" "INVSBox ! 238 = 0x99" "INVSBox ! 239 = 0x61"
  "INVSBox ! 240 = 0x17" "INVSBox ! 241 = 0x2b" "INVSBox ! 242 = 0x04" "INVSBox ! 243 = 0x7e"
  "INVSBox ! 244 = 0xba" "INVSBox ! 245 = 0x77" "INVSBox ! 246 = 0xd6" "INVSBox ! 247 = 0x26"
  "INVSBox ! 248 = 0xe1" "INVSBox ! 249 = 0x69" "INVSBox ! 250 = 0x14" "INVSBox ! 251 = 0x63"
  "INVSBox ! 252 = 0x55" "INVSBox ! 253 = 0x21" "INVSBox ! 254 = 0x0c" "INVSBox ! 255 = 0x7d"
  by (simp_all only: INVSBox_eq FIPS_INVSBox_def list_eval)

lemma length_SBox: "length SBox = 256"
  by (simp add: SBox_eq FIPS_SBox_def)

lemma length_INVSBox: "length INVSBox = 256"
  by (simp add: INVSBox_eq FIPS_INVSBox_def)

text \<open>A property of all 256 bytes holds if it holds at each of them.\<close>

lemma u8_cases: "(\<forall>b::u8. P b) \<longleftrightarrow> list_all (\<lambda>n. P (of_nat n)) indices_256"
proof
  assume "\<forall>b. P b"
  then show "list_all (\<lambda>n. P (of_nat n)) indices_256" by (simp add: list_all_iff)
next
  assume *: "list_all (\<lambda>n. P (of_nat n)) indices_256"
  show "\<forall>b. P b"
  proof
    fix b :: u8
    have "unat b < 256" using unsigned_less [of b, where ?'a = nat] by simp
    then have mem: "unat b \<in> set indices_256" by (simp flip: upt_256)
    from * have "\<forall>n\<in>set indices_256. P (of_nat n)" by (simp only: list_all_iff)
    with mem have "P (of_nat (unat b))" by blast
    then show "P b" by simp
  qed
qed

lemma INVSBox_SBox: "INVSBox ! unat (SBox ! unat b) = b"
proof -
  have "\<forall>b::u8. INVSBox ! unat (SBox ! unat b) = b"
    unfolding u8_cases by (simp add: indices_256_def SBox_nth INVSBox_nth)
  then show ?thesis ..
qed

lemma SBox_INVSBox: "SBox ! unat (INVSBox ! unat b) = b"
proof -
  have "\<forall>b::u8. SBox ! unat (INVSBox ! unat b) = b"
    unfolding u8_cases by (simp add: indices_256_def SBox_nth INVSBox_nth)
  then show ?thesis ..
qed

subsection \<open>The indices written by the generator\<close>

lemma length_SBox_writes: "length (map fst SBox_writes) = 255"
  by (simp add: SBox_writes_def)

lemma SBox_writes_range: "list_all (\<lambda>i. 1 \<le> i \<and> i \<le> 255) (map fst SBox_writes)"
  by (simp add: SBox_writes_def)

lemma distinct_SBox_writes: "distinct (map fst SBox_writes)"
  by (simp only: SBox_writes_def list.map fst_conv distinct.simps set_simps insert_iff empty_iff
      numeral_eq_iff num.inject num.distinct one_eq_numeral_iff numeral_eq_one_iff simp_thms)

lemma set_SBox_writes: "set (map fst SBox_writes) = {1..255}"
proof (rule card_subset_eq)
  show "finite {1..255::nat}" by simp
  show "set (map fst SBox_writes) \<subseteq> {1..255}"
    using SBox_writes_range by (auto simp add: list_all_iff)
  show "card (set (map fst SBox_writes)) = card {1..255::nat}"
    using distinct_card [OF distinct_SBox_writes] length_SBox_writes by simp
qed

lemma last_SBox_writes: "last (map fst SBox_writes) = 1" "1 \<notin> set (butlast (map fst SBox_writes))"
proof -
  have ne: "map fst SBox_writes \<noteq> []" using length_SBox_writes by auto
  show l: "last (map fst SBox_writes) = 1"
    by (simp add: SBox_writes_def)
  have "distinct (butlast (map fst SBox_writes) @ [last (map fst SBox_writes)])"
    using distinct_SBox_writes ne by simp
  then show "1 \<notin> set (butlast (map fst SBox_writes))"
    unfolding l by simp
qed


text \<open>
  C8: the generator loop terminates.  Started from \<open>P = 1\<close>, \<open>Q = 1\<close> and the
  zero-initialised buffer it returns after exactly 255 iterations: \<open>Written\<close> holds the
  255 indices assigned, one per iteration; the last one is 1, which is the exit
  condition, and 1 occurs at no earlier iteration; the indices assigned are exactly
  1 to 255.  With \<open>Buffer[0] = 0x63\<close> set afterwards, the table is the published
  substitution box, and the inverse table, of the same length, is its point-wise
  inverse.
\<close>

theorem SBox_generation_terminates:
  "\<exists>Buffer Written.
      SBox_loop 1 1 (replicate 256 0) [] = Some (Buffer, Written)
    \<and> length Written = 255 \<and> last Written = 1 \<and> 1 \<notin> set (butlast Written)
    \<and> set Written = {1..255}
    \<and> SBox_gen = Some (Buffer[0 := 0x63]) \<and> SBox = Buffer[0 := 0x63]
    \<and> SBox ! 0 = 0x63 \<and> length SBox = 256 \<and> SBox = FIPS_SBox
    \<and> length INVSBox = 256 \<and> INVSBox = FIPS_INVSBox
    \<and> (\<forall>b. INVSBox ! unat (SBox ! unat b) = b)
    \<and> (\<forall>b. SBox ! unat (INVSBox ! unat b) = b)"
proof (intro exI conjI)
  show "SBox_loop 1 1 (replicate 256 0) [] = Some (write_all SBox_writes zeros_256, map fst SBox_writes)"
    by (rule SBox_loop_result)
  show "length (map fst SBox_writes) = 255" by (rule length_SBox_writes)
  show "last (map fst SBox_writes) = 1" by (rule last_SBox_writes)
  show "1 \<notin> set (butlast (map fst SBox_writes))" by (rule last_SBox_writes)
  show "set (map fst SBox_writes) = {1..255}" by (rule set_SBox_writes)
  show "SBox_gen = Some ((write_all SBox_writes zeros_256)[0 := 0x63])"
    by (simp only: SBox_gen_eq write_all_SBox)
  show "SBox = (write_all SBox_writes zeros_256)[0 := 0x63]"
    by (simp only: SBox_eq write_all_SBox)
  show "SBox ! 0 = 0x63" by (rule SBox_nth)
  show "length SBox = 256" by (rule length_SBox)
  show "SBox = FIPS_SBox" by (rule SBox_eq)
  show "length INVSBox = 256" by (rule length_INVSBox)
  show "INVSBox = FIPS_INVSBox" by (rule INVSBox_eq)
  show "\<forall>b. INVSBox ! unat (SBox ! unat b) = b" by (simp only: INVSBox_SBox simp_thms)
  show "\<forall>b. SBox ! unat (INVSBox ! unat b) = b" by (simp only: SBox_INVSBox simp_thms)
qed


section \<open>Column mixing\<close>

subsection \<open>Rotations\<close>

lemma rotr32_8: "rotr32 w 8 = drop_bit 8 w XOR push_bit 24 w"
proof -
  have "drop_bit 8 w AND push_bit 24 w = 0"
    by (rule bit_word_eqI)
       (auto simp add: bit_and_iff bit_drop_bit_eq bit_push_bit_iff dest: bit_imp_le_length)
  then have "drop_bit 8 w XOR push_bit 24 w = drop_bit 8 w OR push_bit 24 w"
    by (rule disjunctive_xor_eq_or)
  then show ?thesis by (simp add: rotr32_def)
qed

lemma rotr32_16: "rotr32 w 16 = drop_bit 16 w XOR push_bit 16 w"
proof -
  have "drop_bit 16 w AND push_bit 16 w = 0"
    by (rule bit_word_eqI)
       (auto simp add: bit_and_iff bit_drop_bit_eq bit_push_bit_iff dest: bit_imp_le_length)
  then have "drop_bit 16 w XOR push_bit 16 w = drop_bit 16 w OR push_bit 16 w"
    by (rule disjunctive_xor_eq_or)
  then show ?thesis by (simp add: rotr32_def)
qed

lemma rotr32_8_xor: "rotr32 (x XOR y) 8 = rotr32 x 8 XOR rotr32 y 8"
  by (simp only: rotr32_8 drop_bit_xor push_bit_xor xor.assoc xor.commute xor.left_commute)

lemma rotr32_16_xor: "rotr32 (x XOR y) 16 = rotr32 x 16 XOR rotr32 y 16"
  by (simp only: rotr32_16 drop_bit_xor push_bit_xor xor.assoc xor.commute xor.left_commute)

subsection \<open>The packed multiplications are linear\<close>

lemma bit_m01: "bit (0x01010101::u32) n \<longleftrightarrow> n \<in> {0, 8, 16, 24}"
proof -
  have e: "(0x01010101::u32) = 2 ^ 0 OR 2 ^ 8 OR 2 ^ 16 OR 2 ^ 24" by simp
  show ?thesis
    unfolding e by (simp only: bit_or_iff bit_exp_iff) auto
qed

lemma m01_split:
  "(z::u32) AND 0x01010101 =
     of_bool (bit z 0) OR push_bit 8 (of_bool (bit z 8)) OR push_bit 16 (of_bool (bit z 16))
       OR push_bit 24 (of_bool (bit z 24))"
proof (rule bit_word_eqI)
  fix n assume "n < LENGTH(32)"
  show "bit (z AND 0x01010101) n =
        bit ((of_bool (bit z 0) :: u32) OR push_bit 8 (of_bool (bit z 8))
          OR push_bit 16 (of_bool (bit z 16)) OR push_bit 24 (of_bool (bit z 24))) n"
  proof (cases "n \<in> {0, 8, 16, 24}")
    case True
    then show ?thesis
      by (auto simp add: bit_and_iff bit_or_iff bit_push_bit_iff bit_of_bool_iff bit_m01)
  next
    case False
    then have "\<not> bit (0x01010101::u32) n" by (simp only: bit_m01 not_False_eq_True)
    with False show ?thesis
      by (auto simp add: bit_and_iff bit_or_iff bit_push_bit_iff bit_of_bool_iff)
  qed
qed

lemma mult_1B_xor:
  "((x AND 0x01010101) XOR (y AND 0x01010101)) * 0x1B
     = (x AND 0x01010101) * 0x1B XOR (y AND 0x01010101) * (0x1B::u32)"
  by (cases "bit x 0"; cases "bit y 0"; cases "bit x 8"; cases "bit y 8";
      cases "bit x 16"; cases "bit y 16"; cases "bit x 24"; cases "bit y 24";
      simp add: m01_split)

lemma mult_36_xor:
  "((x AND 0x01010101) XOR (y AND 0x01010101)) * 0x36
     = (x AND 0x01010101) * 0x36 XOR (y AND 0x01010101) * (0x36::u32)"
  by (cases "bit x 0"; cases "bit y 0"; cases "bit x 8"; cases "bit y 8";
      cases "bit x 16"; cases "bit y 16"; cases "bit x 24"; cases "bit y 24";
      simp add: m01_split)

lemma drop7_and: "drop_bit 7 (z AND 0x80808080) = drop_bit 7 z AND (0x01010101::u32)"
  by simp

lemma drop6_and: "drop_bit 6 (z AND 0x40404040) = drop_bit 6 z AND (0x01010101::u32)"
  by simp

lemma Mul2_32_xor: "Mul2_32 (x XOR y) = Mul2_32 x XOR Mul2_32 y"
  by (simp only: Mul2_32_def bit.conj_xor_distrib2 push_bit_xor drop_bit_xor drop7_and
      mult_1B_xor xor.assoc xor.commute xor.left_commute)

lemma Mul3_32_xor: "Mul3_32 (x XOR y) = Mul3_32 x XOR Mul3_32 y"
  by (simp only: Mul3_32_def bit.conj_xor_distrib2 push_bit_xor drop_bit_xor drop7_and drop6_and
      mult_1B_xor mult_36_xor xor.assoc xor.commute xor.left_commute)

lemma Mix_xor: "Mix (x XOR y) = Mix x XOR Mix y"
  by (simp only: Mix_def Let_def Mul2_32_xor rotr32_8_xor rotr32_16_xor
      xor.assoc xor.commute xor.left_commute)

lemma INVMix_xor: "INVMix (x XOR y) = INVMix x XOR INVMix y"
  by (simp only: INVMix_def Let_def Mul3_32_xor Mix_xor rotr32_16_xor
      xor.assoc xor.commute xor.left_commute)

subsection \<open>A linear map that fixes every single bit is the identity\<close>

lemma xor_linear_id:
  fixes F :: "u32 \<Rightarrow> u32"
  assumes lin: "\<And>x y. F (x XOR y) = F x XOR F y"
    and basis: "\<And>i. i < 32 \<Longrightarrow> F (push_bit i 1) = push_bit i 1"
  shows "F w = w"
proof -
  have F0: "F 0 = 0" using lin [of 0 0] by simp
  have "F (take_bit n w) = take_bit n w" if "n \<le> 32" for n
    using that
  proof (induction n)
    case 0
    show ?case by (simp add: F0)
  next
    case (Suc n)
    have split: "take_bit (Suc n) w = take_bit n w XOR (if bit w n then push_bit n 1 else 0)"
    proof (rule bit_word_eqI)
      fix k assume "k < LENGTH(32)"
      with Suc.prems
      show "bit (take_bit (Suc n) w) k
          = bit (take_bit n w XOR (if bit w n then push_bit n 1 else 0)) k"
        by (auto simp add: bit_take_bit_iff bit_xor_iff bit_exp_iff less_Suc_eq)
    qed
    from Suc have ih: "F (take_bit n w) = take_bit n w" and b: "F (push_bit n 1) = push_bit n 1"
      using basis [of n] by simp_all
    show ?case
    proof (cases "bit w n")
      case True
      with split have e: "take_bit (Suc n) w = take_bit n w XOR push_bit n 1"
        by (simp only: if_True)
      have "F (take_bit n w XOR push_bit n 1) = take_bit n w XOR push_bit n 1"
        by (simp only: lin ih b)
      with e show ?thesis by (simp only:)
    next
      case False
      with split have e: "take_bit (Suc n) w = take_bit n w XOR 0"
        by (simp only: if_False)
      have "F (take_bit n w XOR 0) = take_bit n w XOR 0"
        by (simp only: lin ih F0)
      with e show ?thesis by (simp only:)
    qed
  qed
  from this [of 32] have "F (take_bit 32 w) = take_bit 32 w" by simp
  moreover have "take_bit 32 w = w"
    by (rule bit_word_eqI) (simp add: bit_take_bit_iff)
  ultimately show ?thesis by (simp only:)
qed

lemma u32_mask: "(x::u32) AND 0xFFFFFFFF = x"
proof -
  have "(0xFFFFFFFF::u32) = - 1" by simp
  then show ?thesis by (simp only: and.right_neutral)
qed

lemma rotr32_eval:
  "rotr32 w 8 = (drop_bit 8 w OR push_bit 24 w) AND 0xFFFFFFFF"
  "rotr32 w 16 = (drop_bit 16 w OR push_bit 16 w) AND 0xFFFFFFFF"
  unfolding u32_mask by (simp_all add: rotr32_def)

lemma Mix_eval:
  "Mix w = (Mul2_32 w XOR rotr32 w 16) XOR rotr32 (w XOR (Mul2_32 w XOR rotr32 w 16)) 8"
  by (simp only: Mix_def Let_def)

lemma INVMix_eval:
  "INVMix w = Mix (w XOR Mul3_32 w XOR rotr32 (Mul3_32 w) 16)"
  by (simp only: INVMix_def Let_def)

lemma upt_32: "[0..<32] = [0, 1, 2, 3, 4, 5, 6, 7, 8, 9, 10, 11, 12, 13, 14, 15, 16, 17, 18, 19, 20,
    21, 22, 23, 24, 25, 26, 27, 28, 29, 30, 31]"
  by (simp add: upt_rec)

lemma Mix_basis:
  "INVMix (Mix 1) = 1" "Mix (INVMix 1) = 1"
  "INVMix (Mix 2) = 2" "Mix (INVMix 2) = 2"
  "INVMix (Mix 4) = 4" "Mix (INVMix 4) = 4"
  "INVMix (Mix 8) = 8" "Mix (INVMix 8) = 8"
  "INVMix (Mix 16) = 16" "Mix (INVMix 16) = 16"
  "INVMix (Mix 32) = 32" "Mix (INVMix 32) = 32"
  "INVMix (Mix 64) = 64" "Mix (INVMix 64) = 64"
  "INVMix (Mix 128) = 128" "Mix (INVMix 128) = 128"
  "INVMix (Mix 256) = 256" "Mix (INVMix 256) = 256"
  "INVMix (Mix 512) = 512" "Mix (INVMix 512) = 512"
  "INVMix (Mix 1024) = 1024" "Mix (INVMix 1024) = 1024"
  "INVMix (Mix 2048) = 2048" "Mix (INVMix 2048) = 2048"
  "INVMix (Mix 4096) = 4096" "Mix (INVMix 4096) = 4096"
  "INVMix (Mix 8192) = 8192" "Mix (INVMix 8192) = 8192"
  "INVMix (Mix 16384) = 16384" "Mix (INVMix 16384) = 16384"
  "INVMix (Mix 32768) = 32768" "Mix (INVMix 32768) = 32768"
  "INVMix (Mix 65536) = 65536" "Mix (INVMix 65536) = 65536"
  "INVMix (Mix 131072) = 131072" "Mix (INVMix 131072) = 131072"
  "INVMix (Mix 262144) = 262144" "Mix (INVMix 262144) = 262144"
  "INVMix (Mix 524288) = 524288" "Mix (INVMix 524288) = 524288"
  "INVMix (Mix 1048576) = 1048576" "Mix (INVMix 1048576) = 1048576"
  "INVMix (Mix 2097152) = 2097152" "Mix (INVMix 2097152) = 2097152"
  "INVMix (Mix 4194304) = 4194304" "Mix (INVMix 4194304) = 4194304"
  "INVMix (Mix 8388608) = 8388608" "Mix (INVMix 8388608) = 8388608"
  "INVMix (Mix 16777216) = 16777216" "Mix (INVMix 16777216) = 16777216"
  "INVMix (Mix 33554432) = 33554432" "Mix (INVMix 33554432) = 33554432"
  "INVMix (Mix 67108864) = 67108864" "Mix (INVMix 67108864) = 67108864"
  "INVMix (Mix 134217728) = 134217728" "Mix (INVMix 134217728) = 134217728"
  "INVMix (Mix 268435456) = 268435456" "Mix (INVMix 268435456) = 268435456"
  "INVMix (Mix 536870912) = 536870912" "Mix (INVMix 536870912) = 536870912"
  "INVMix (Mix 1073741824) = 1073741824" "Mix (INVMix 1073741824) = 1073741824"
  "INVMix (Mix 2147483648) = 2147483648" "Mix (INVMix 2147483648) = 2147483648"
  by (simp_all add: Mix_eval INVMix_eval Mul2_32_def Mul3_32_def rotr32_eval)

lemma Mix_basis_all:
  assumes "i < 32"
  shows "INVMix (Mix (push_bit i 1)) = push_bit i 1" "Mix (INVMix (push_bit i 1)) = push_bit i 1"
proof -
  from assms have "i \<in> set [0..<32]" by simp
  then have "INVMix (Mix (push_bit i 1)) = push_bit i 1 \<and> Mix (INVMix (push_bit i 1)) = push_bit i 1"
    unfolding upt_32 by (auto simp add: Mix_basis)
  then show "INVMix (Mix (push_bit i 1)) = push_bit i 1" "Mix (INVMix (push_bit i 1)) = push_bit i 1"
    by simp_all
qed

text \<open>
  C9: the two column mixes are mutually inverse on every 32-bit word, and so are the
  block-level mixes on every block of four words.
\<close>

theorem INVMix_Mix_inverse:
  "INVMix (Mix w) = w \<and> Mix (INVMix w) = w
   \<and> INVMix_block (Mix_block B) = B \<and> Mix_block (INVMix_block B) = B
   \<and> bij Mix_block \<and> bij INVMix_block"
proof -
  have a: "INVMix (Mix w) = w" for w
    by (rule xor_linear_id [where F = "\<lambda>w. INVMix (Mix w)"])
       (simp_all only: Mix_xor INVMix_xor Mix_basis_all)
  have b: "Mix (INVMix w) = w" for w
    by (rule xor_linear_id [where F = "\<lambda>w. Mix (INVMix w)"])
       (simp_all only: Mix_xor INVMix_xor Mix_basis_all)
  have c: "INVMix_block (Mix_block B) = B" for B
    by (cases B) (simp add: a)
  have d: "Mix_block (INVMix_block B) = B" for B
    by (cases B) (simp add: b)
  have e: "bij Mix_block"
    by (rule o_bij [where g = INVMix_block]) (simp_all add: fun_eq_iff c d)
  have f: "bij INVMix_block"
    by (rule o_bij [where g = Mix_block]) (simp_all add: fun_eq_iff c d)
  from a b c d e f show ?thesis by simp
qed

end
